theory Spec2Isabelle
  imports Main "HOL-Library.AList"
begin

section \<open>Middleware store\<close>

text \<open>
  The class \<open>Middleware\<close> keeps two tables: the ordered list of global middleware and
  the table of named middleware. A namespace argument is a string or missing; JavaScript
  treats a missing value and the empty string alike as falsy.
\<close>

record middleware_store =
  globalMiddleware :: "string list"
  namedMiddleware :: "string \<rightharpoonup> string"

definition new :: middleware_store where
  "new = \<lparr>globalMiddleware = [], namedMiddleware = Map.empty\<rparr>"

definition falsy :: "string option \<Rightarrow> bool" where
  "falsy v = (case v of None \<Rightarrow> True | Some s \<Rightarrow> s = [])"

definition register :: "string \<Rightarrow> string option \<Rightarrow> middleware_store \<Rightarrow> middleware_store" where
  "register key namespace s =
     (case namespace of
        None \<Rightarrow> s\<lparr>globalMiddleware := globalMiddleware s @ [key]\<rparr>
      | Some ns \<Rightarrow>
          if ns = [] then s\<lparr>globalMiddleware := globalMiddleware s @ [key]\<rparr>
          else s\<lparr>namedMiddleware := (namedMiddleware s)(key \<mapsto> ns)\<rparr>)"

text \<open>
  \<open>_.uniq\<close> walks the array from the left and keeps an element when it is not among the
  ones kept so far.
\<close>

definition uniq :: "'a list \<Rightarrow> 'a list" where
  "uniq xs = fold (\<lambda>x seen. if x \<in> set seen then seen else seen @ [x]) xs []"

definition global :: "string list \<Rightarrow> middleware_store \<Rightarrow> middleware_store" where
  "global arrayOfMiddleware s =
     s\<lparr>globalMiddleware := globalMiddleware s @ uniq arrayOfMiddleware\<rparr>"

text \<open>
  The object handed to \<open>named\<close> is a list of key/value pairs in insertion order;
  \<open>_.each\<close> visits them in that order.
\<close>

definition named :: "(string \<times> string option) list \<Rightarrow> middleware_store \<Rightarrow> middleware_store" where
  "named mapping s = fold (\<lambda>(key, namespace). register key namespace) mapping s"


subsection \<open>Parsing named middleware keys\<close>

datatype error =
    MissingNamedMiddleware string
  | InvalidArgument string
  | TypeError string

text \<open>
  \<open>String.prototype.split\<close> with a one-character separator: the result always has at
  least one piece, and an empty piece stands between two adjacent separators and at either
  end.
\<close>

fun split :: "char \<Rightarrow> string \<Rightarrow> string list" where
  "split sep [] = [[]]"
| "split sep (c # cs) =
     (if c = sep then [] # split sep cs
      else (case split sep cs of
              [] \<Rightarrow> [[c]]
            | piece # pieces \<Rightarrow> (c # piece) # pieces))"

text \<open>Reading an array index that may be out of range gives \<open>undefined\<close>, here \<open>None\<close>.\<close>

definition at :: "'a list \<Rightarrow> nat \<Rightarrow> 'a option" where
  "at xs i = (if i < length xs then Some (xs ! i) else None)"

definition fetchParams :: "string option \<Rightarrow> string list" where
  "fetchParams params =
     (case params of
        None \<Rightarrow> []
      | Some p \<Rightarrow> if p = [] then [] else split CHR '','' p)"

text \<open>
  The named table is a plain object (\<open>new\<close> sets it to \<open>{}\<close>), and
  \<open>this.namedMiddleware[tokens[0]]\<close> is an ordinary property read: a key that the table
  does not hold itself is looked for on \<open>Object.prototype\<close>. The names below are the
  members found there. Each of them reads as a truthy value: a built-in function, or the
  prototype object itself for \<open>__proto__\<close>. Used as a property key such a value is
  turned into text; \<open>member_text\<close> is the text that Node gives.
\<close>

definition object_prototype_members :: "string list" where
  "object_prototype_members =
     [''constructor'', ''toString'', ''toLocaleString'', ''valueOf'', ''hasOwnProperty'',
      ''isPrototypeOf'', ''propertyIsEnumerable'', ''__proto__'', ''__defineGetter__'',
      ''__defineSetter__'', ''__lookupGetter__'', ''__lookupSetter__'']"

definition member_text :: "string \<Rightarrow> string" where
  "member_text m =
     (if m = ''__proto__'' then ''[object Object]''
      else if m = ''constructor'' then ''function Object() { [native code] }''
      else ''function '' @ m @ ''() { [native code] }'')"

datatype table_entry = Own string | Inherited string

definition lookup_named :: "middleware_store \<Rightarrow> string \<Rightarrow> table_entry option" where
  "lookup_named s key =
     (case namedMiddleware s key of
        Some ns \<Rightarrow> Some (Own ns)
      | None \<Rightarrow> if key \<in> set object_prototype_members then Some (Inherited key) else None)"

text \<open>
  The accumulator \<open>structured\<close> is an object keyed by namespace: assigning to a key that is
  already there overwrites the value in place, a new key goes to the end. The callback of
  \<open>_.reduce\<close> throws on the first key for which the property read gives a falsy value:
  nothing at all, or an empty string held by the table.
\<close>

definition formatNamedMiddleware_step ::
  "middleware_store \<Rightarrow> (string \<times> string list) list \<Rightarrow> string
     \<Rightarrow> error + (string \<times> string list) list" where
  "formatNamedMiddleware_step s structured key =
     (let tokens = split CHR '':'' key;
          base = (case at tokens 0 of None \<Rightarrow> [] | Some t \<Rightarrow> t)
      in case lookup_named s base of
           None \<Rightarrow> Inl (MissingNamedMiddleware base)
         | Some (Own middlewareNamespace) \<Rightarrow>
             if middlewareNamespace = [] then Inl (MissingNamedMiddleware base)
             else Inr (AList.update middlewareNamespace (fetchParams (at tokens 1)) structured)
         | Some (Inherited m) \<Rightarrow>
             Inr (AList.update (member_text m) (fetchParams (at tokens 1)) structured))"

fun reduce_keys ::
  "middleware_store \<Rightarrow> string list \<Rightarrow> (string \<times> string list) list
     \<Rightarrow> error + (string \<times> string list) list" where
  "reduce_keys s [] structured = Inr structured"
| "reduce_keys s (key # keys) structured =
     (case formatNamedMiddleware_step s structured key of
        Inl e \<Rightarrow> Inl e
      | Inr structured' \<Rightarrow> reduce_keys s keys structured')"

definition formatNamedMiddleware ::
  "middleware_store \<Rightarrow> string list \<Rightarrow> error + (string \<times> string list) list" where
  "formatNamedMiddleware s keys = reduce_keys s keys []"





subsection \<open>Composing middleware\<close>

text \<open>
  A generator object is a suspended computation: running it to completion (\<open>yield*\<close>)
  takes the observable world \<open>'w\<close> to a returned value and a new world. Calling a
  generator function only creates the generator object; nothing runs until it is
  delegated to. A middleware method receives its receiver (\<open>this\<close>), the request, the
  response, the next generator and its bound parameters. The model lets a generator be run
  from any world; a generator object of the source can be run once, which is all that a
  middleware that delegates to its next step does.
\<close>

type_synonym ('w, 'v) generator = "'w \<Rightarrow> 'v \<times> 'w"

type_synonym ('i, 'q, 'r, 'w, 'v) middleware_method =
  "'i option \<Rightarrow> 'q \<Rightarrow> 'r \<Rightarrow> ('w, 'v) generator \<Rightarrow> string list \<Rightarrow> ('w, 'v) generator"

text \<open>
  What the \<open>method\<close> field of a middleware object holds: the name of a member of the
  instance, or a callable.
\<close>

datatype 'f method_ref = Member string | Callable 'f

text \<open>
  The normal form of a middleware has the fields \<open>instance\<close>, \<open>method\<close> and
  \<open>parameters\<close>; the first two are called \<open>receiver\<close> and \<open>callee\<close> here.
\<close>

datatype ('i, 'f) middleware =
    Function 'f
  | Object "'i option" "'f method_ref" "string list"

record ('i, 'f) composed =
  receiver :: "'i option"
  callee :: "'f option"
  parameters :: "string list"

definition noop :: "'v \<Rightarrow> ('w, 'v) generator" where
  "noop undefined_value = (\<lambda>w. (undefined_value, w))"

definition composeFunction :: "'f \<Rightarrow> ('i, 'f) composed" where
  "composeFunction middleware = \<lparr>receiver = None, callee = Some middleware, parameters = []\<rparr>"

text \<open>
  With an instance the method is looked up on it by name (\<open>members\<close> is the property
  lookup of the instance); without one the \<open>method\<close> field itself is taken. A lookup
  that does not give a callable leaves \<open>callee\<close> empty.
\<close>

definition composeObject ::
  "('i \<Rightarrow> string \<Rightarrow> 'f option) \<Rightarrow> 'i option \<Rightarrow> 'f method_ref \<Rightarrow> string list
     \<Rightarrow> ('i, 'f) composed" where
  "composeObject members inst m ps =
     \<lparr>receiver = inst,
      callee = (case inst of
                  Some i \<Rightarrow> (case m of Member n \<Rightarrow> members i n | Callable f \<Rightarrow> None)
                | None \<Rightarrow> (case m of Member n \<Rightarrow> None | Callable f \<Rightarrow> Some f)),
      parameters = ps\<rparr>"

definition normalise ::
  "('i \<Rightarrow> string \<Rightarrow> 'f option) \<Rightarrow> ('i, 'f) middleware \<Rightarrow> ('i, 'f) composed" where
  "normalise members middleware =
     (case middleware of
        Function f \<Rightarrow> composeFunction f
      | Object inst m ps \<Rightarrow> composeObject members inst m ps)"

text \<open>
  One step of \<open>forEachRight\<close>: apply the method to request, response, the chain built so
  far and then the parameters. Applying something that is not callable throws.
\<close>

definition wrap ::
  "'q \<Rightarrow> 'r \<Rightarrow> ('i, ('i, 'q, 'r, 'w, 'v) middleware_method) composed
     \<Rightarrow> error + ('w, 'v) generator \<Rightarrow> error + ('w, 'v) generator" where
  "wrap request response middleware acc =
     (case acc of
        Inl e \<Rightarrow> Inl e
      | Inr next \<Rightarrow>
          (case callee middleware of
             None \<Rightarrow> Inl (TypeError ''method.apply is not a function'')
           | Some f \<Rightarrow> Inr (f (receiver middleware) request response next (parameters middleware))))"

text \<open>\<open>next = next || noop()\<close>: a missing continuation is replaced by the empty generator.\<close>

definition start :: "'v \<Rightarrow> ('w, 'v) generator option \<Rightarrow> ('w, 'v) generator" where
  "start undefined_value next = (case next of None \<Rightarrow> noop undefined_value | Some n \<Rightarrow> n)"

definition forEachRight :: "('a \<Rightarrow> 'b \<Rightarrow> 'b) \<Rightarrow> 'a list \<Rightarrow> 'b \<Rightarrow> 'b" where
  "forEachRight f xs acc = fold f (rev xs) acc"

text \<open>
  \<open>compose\<close> returns a generator function written with \<open>function*\<close>. Inside it, and
  inside the arrow functions of its body, \<open>this\<close> is the receiver of the call that
  starts the returned function, not the \<open>Middleware\<close> instance on which \<open>compose\<close>
  was called: it is that instance only when the returned function is started as
  \<open>composed.call(middleware, next)\<close>, and it is \<open>undefined\<close> when the function is
  called plainly, as \<open>composed(next)\<close> (the file is a module, hence strict code).
  \<open>_composeFunction\<close> and \<open>_composeObject\<close> are reached through \<open>this\<close> in the
  callback of \<open>map\<close>, which runs once for each middleware, from the left, before
  \<open>forEachRight\<close> starts: with no receiver the callback throws at the first
  middleware, and on an empty list it never runs.
\<close>

datatype this_binding = Unbound | Instance

definition normalise_all ::
  "this_binding \<Rightarrow> ('i \<Rightarrow> string \<Rightarrow> 'f option) \<Rightarrow> ('i, 'f) middleware list
     \<Rightarrow> error + ('i, 'f) composed list" where
  "normalise_all this members middlewareList =
     (case this of
        Instance \<Rightarrow> Inr (map (normalise members) middlewareList)
      | Unbound \<Rightarrow>
          (case middlewareList of
             [] \<Rightarrow> Inr []
           | Function f # _ \<Rightarrow>
               Inl (TypeError ''Cannot read property _composeFunction of undefined'')
           | Object inst m ps # _ \<Rightarrow>
               Inl (TypeError ''Cannot read property _composeObject of undefined'')))"

definition compose ::
  "this_binding \<Rightarrow> ('i \<Rightarrow> string \<Rightarrow> ('i, 'q, 'r, 'w, 'v) middleware_method option)
     \<Rightarrow> ('i, ('i, 'q, 'r, 'w, 'v) middleware_method) middleware list \<Rightarrow> 'q \<Rightarrow> 'r
     \<Rightarrow> 'v \<Rightarrow> ('w, 'v) generator option \<Rightarrow> error + ('w, 'v) generator" where
  "compose this members middlewareList request response undefined_value next =
     (case normalise_all this members middlewareList of
        Inl e \<Rightarrow> Inl e
      | Inr normalised \<Rightarrow>
          forEachRight (wrap request response) normalised (Inr (start undefined_value next)))"

text \<open>Running the composed generator: \<open>return yield* next\<close>.\<close>

definition run ::
  "error + ('w, 'v) generator \<Rightarrow> 'w \<Rightarrow> error + 'v \<times> 'w" where
  "run chain w = (case chain of Inl e \<Rightarrow> Inl e | Inr g \<Rightarrow> Inr (g w))"


text \<open>
  Middleware to observe a chain with. \<open>around before after\<close> runs \<open>before\<close>,
  delegates to the next step once and runs \<open>after\<close> when that step has completed;
  \<open>stop respond\<close> answers by itself and never touches the next step. Both see the
  request, the response and their parameters. \<open>record_call\<close> appends what it was called
  with to a log.
\<close>

definition around ::
  "('q \<Rightarrow> 'r \<Rightarrow> string list \<Rightarrow> 'w \<Rightarrow> 'w) \<Rightarrow> ('q \<Rightarrow> 'r \<Rightarrow> string list \<Rightarrow> 'w \<Rightarrow> 'w)
     \<Rightarrow> ('i, 'q, 'r, 'w, 'v) middleware_method" where
  "around before after this request response next ps =
     (\<lambda>w. let (v, w') = next (before request response ps w)
          in (v, after request response ps w'))"

definition stop :: "('q \<Rightarrow> 'r \<Rightarrow> string list \<Rightarrow> 'w \<Rightarrow> 'v \<times> 'w) \<Rightarrow> ('i, 'q, 'r, 'w, 'v) middleware_method" where
  "stop respond this request response next ps = respond request response ps"

fun around_entry ::
  "('q \<Rightarrow> 'r \<Rightarrow> string list \<Rightarrow> 'w \<Rightarrow> 'w) \<times> ('q \<Rightarrow> 'r \<Rightarrow> string list \<Rightarrow> 'w \<Rightarrow> 'w) \<times> string list
     \<Rightarrow> ('i, ('i, 'q, 'r, 'w, 'v) middleware_method) middleware" where
  "around_entry (before, after, ps) = Object None (Callable (around before after)) ps"

fun run_before ::
  "'q \<Rightarrow> 'r \<Rightarrow> ('q \<Rightarrow> 'r \<Rightarrow> string list \<Rightarrow> 'w \<Rightarrow> 'w) \<times> ('q \<Rightarrow> 'r \<Rightarrow> string list \<Rightarrow> 'w \<Rightarrow> 'w) \<times> string list
     \<Rightarrow> 'w \<Rightarrow> 'w" where
  "run_before q r (before, after, ps) w = before q r ps w"

fun run_after ::
  "'q \<Rightarrow> 'r \<Rightarrow> ('q \<Rightarrow> 'r \<Rightarrow> string list \<Rightarrow> 'w \<Rightarrow> 'w) \<times> ('q \<Rightarrow> 'r \<Rightarrow> string list \<Rightarrow> 'w \<Rightarrow> 'w) \<times> string list
     \<Rightarrow> 'w \<Rightarrow> 'w" where
  "run_after q r (before, after, ps) w = after q r ps w"

type_synonym call_log = "(string \<times> string \<times> string \<times> string list) list"

definition record_call :: "string \<Rightarrow> string \<Rightarrow> string \<Rightarrow> string list \<Rightarrow> call_log \<Rightarrow> call_log" where
  "record_call label request response ps w = w @ [(label, request, response, ps)]"

section \<open>Routes\<close>

text \<open>
  The router is written against the library \<open>path-to-regexp\<close>. The library is a
  parameter of the model: \<open>pathToRegexp\<close> compiles a path into a pattern object, \<open>exec\<close>
  runs the pattern on a string and gives the match array (the whole match, then one entry
  per capture group, an unmatched group being \<open>undefined\<close>) or \<open>null\<close>, \<open>keys\<close> are
  the parameter names of the pattern from left to right, and \<open>compile\<close> fills a path
  with values.

  \<open>index.ts\<close> uses the names \<open>helpers\<close> and \<open>domains\<close> without declaring them;
  they are read as an instance of \<open>RouterHelper\<close> and an instance of \<open>Domains\<close> with
  its list of registered domains. Every other member access is read as JavaScript
  evaluates it: calling a member that the object does not have throws a \<open>TypeError\<close>,
  \<open>super.m(...)\<close> runs the method \<open>m\<close> of \<open>Route\<close> on the object at hand, and
  \<open>super.f\<close> for a field \<open>f\<close> reads the prototype of \<open>Route\<close>.
\<close>

record ('p, 'a) path_to_regexp =
  pathToRegexp :: "string \<Rightarrow> 'p"
  exec :: "'p \<Rightarrow> string \<Rightarrow> string option list option"
  keys :: "'p \<Rightarrow> string list"
  compile :: "string \<Rightarrow> 'a \<Rightarrow> error + string"

text \<open>\<open>RegExp.prototype.test\<close> is true exactly when \<open>exec\<close> finds a match.\<close>

definition test :: "('p, 'a) path_to_regexp \<Rightarrow> 'p \<Rightarrow> string \<Rightarrow> bool" where
  "test lib p s = (exec lib p s \<noteq> None)"

text \<open>
  A handler is \<open>null\<close>, a string that names a controller action, or a closure. The verbs
  of a route are an array of strings, as the signature of \<open>construct\<close> has them, so the
  wrapping of a single verb into an array is the identity. A route record is a plain
  object with the eight properties that \<open>construct\<close> gives it. Two more properties are
  written in the course of a resolution, \<open>matchedVerb\<close> and \<open>params\<close>; an object has
  them only once they were assigned. The property \<open>params\<close> of a record is the field
  \<open>attached_params\<close>.
\<close>

datatype handler = Null | Controller string | Closure nat

record 'p route_record =
  route :: string
  verb :: "string list"
  handler :: handler
  pattern :: 'p
  middlewares :: "string list"
  name :: string
  group :: "string option"
  domain :: "string option"
  matchedVerb :: "string option"
  attached_params :: "(string \<times> string option) list option"

definition startsWith :: "string \<Rightarrow> char \<Rightarrow> bool" where
  "startsWith s c = (case s of [] \<Rightarrow> False | x # _ \<Rightarrow> x = c)"

definition makeRoutePattern :: "('p, 'a) path_to_regexp \<Rightarrow> string \<Rightarrow> 'p" where
  "makeRoutePattern lib r = pathToRegexp lib r"

definition construct ::
  "('p, 'a) path_to_regexp \<Rightarrow> string \<Rightarrow> string list \<Rightarrow> handler \<Rightarrow> string option
     \<Rightarrow> 'p route_record" where
  "construct lib r v h g =
     (let r' = (if startsWith r CHR ''/'' then r else CHR ''/'' # r)
      in \<lparr>route = r', verb = v, handler = h, pattern = makeRoutePattern lib r',
          middlewares = [], name = r', group = g, domain = None, matchedVerb = None,
          attached_params = None\<rparr>)"

definition addDomain :: "'p route_record list \<Rightarrow> string \<Rightarrow> 'p route_record list" where
  "addDomain rs d = map (\<lambda>r. r\<lparr>domain := Some d\<rparr>) rs"

subsection \<open>Domains\<close>

definition Domains_add :: "'p \<Rightarrow> 'p list \<Rightarrow> 'p list" where
  "Domains_add d registeredDomains = registeredDomains @ [d]"

definition Domains_match :: "('p, 'a) path_to_regexp \<Rightarrow> 'p list \<Rightarrow> string \<Rightarrow> bool" where
  "Domains_match lib registeredDomains host =
     fold (\<lambda>d isDomain. if test lib d host then True else isDomain) registeredDomains False"

subsection \<open>The registry\<close>

record 'p router =
  routes :: "'p route_record list"
  activeGroup :: "string option"

definition Route_new :: "'p router" where
  "Route_new = \<lparr>routes = [], activeGroup = None\<rparr>"

definition Route_route ::
  "('p, 'a) path_to_regexp \<Rightarrow> string \<Rightarrow> string list \<Rightarrow> handler \<Rightarrow> 'p router \<Rightarrow> 'p router" where
  "Route_route lib r v h st = st\<lparr>routes := routes st @ [construct lib r v h (activeGroup st)]\<rparr>"

definition Route_get ::
  "('p, 'a) path_to_regexp \<Rightarrow> string \<Rightarrow> handler \<Rightarrow> 'p router \<Rightarrow> 'p router" where
  "Route_get lib r h st = Route_route lib r [''GET'', ''HEAD''] h st"



subsection \<open>Resolution\<close>

text \<open>
  The callback of \<open>_.filter\<close> in \<open>returnMatchingRouteToUrl\<close> is called on the records
  in the order of the registry. For a record with a truthy domain it evaluates
  \<open>route.makeRoutePattern(route.domain + route.route)\<close>. The record is the plain object
  that \<open>construct\<close> returned; it has no member \<open>makeRoutePattern\<close> (the method
  belongs to \<open>RouterHelper\<close>), so the call throws a \<open>TypeError\<close> before anything is
  assigned to \<open>route.pattern\<close>, and the exception ends the filter and the resolution.
  For a record without a truthy domain the callback answers whether the pattern of the
  record tests true on the path and the verb is among the verbs of the record.
\<close>

definition has_domain :: "'p route_record \<Rightarrow> bool" where
  "has_domain r = (case domain r of None \<Rightarrow> False | Some d \<Rightarrow> d \<noteq> [])"

definition passes :: "('p, 'a) path_to_regexp \<Rightarrow> string \<Rightarrow> string \<Rightarrow> 'p route_record \<Rightarrow> bool" where
  "passes lib urlPath v r = (test lib (pattern r) urlPath \<and> v \<in> set (verb r))"

definition filter_callback ::
  "('p, 'a) path_to_regexp \<Rightarrow> string \<Rightarrow> string \<Rightarrow> 'p route_record \<Rightarrow> error + bool" where
  "filter_callback lib urlPath v r =
     (if has_domain r then Inl (TypeError ''route.makeRoutePattern is not a function'')
      else Inr (passes lib urlPath v r))"

text \<open>
  \<open>_.filter\<close> with a callback that may throw. The result of the source is the array of
  the elements for which the callback answered true; an element of it is a reference to a
  record of the registry, which is given here by the index of the record. \<open>k\<close> is the
  index of the head of the list.
\<close>

fun filter_indices :: "('a \<Rightarrow> error + bool) \<Rightarrow> 'a list \<Rightarrow> nat \<Rightarrow> error + nat list" where
  "filter_indices f [] k = Inr []"
| "filter_indices f (x # xs) k =
     (case f x of
        Inl e \<Rightarrow> Inl e
      | Inr b \<Rightarrow>
          (case filter_indices f xs (Suc k) of
             Inl e \<Rightarrow> Inl e
           | Inr rest \<Rightarrow> Inr (if b then k # rest else rest)))"

text \<open>
  \<open>maps = maps[0] || {}\<close> takes the first record that passed, and
  \<open>maps.matchedVerb = verb\<close> writes through that reference, so into the record of the
  registry. The guard \<open>if (maps.verb)\<close> holds for every record, since the verbs are an
  array and an array is truthy; a record has at least eight properties, so \<open>_.size\<close> of
  a record that matched is never zero.
\<close>

definition returnMatchingRouteToUrl ::
  "('p, 'a) path_to_regexp \<Rightarrow> 'p route_record list \<Rightarrow> string \<Rightarrow> string
     \<Rightarrow> error + 'p route_record list \<times> nat option" where
  "returnMatchingRouteToUrl lib rs urlPath v =
     (case filter_indices (filter_callback lib urlPath v) rs 0 of
        Inl e \<Rightarrow> Inl e
      | Inr maps \<Rightarrow>
          (case maps of
             [] \<Rightarrow> Inr (rs, None)
           | i # _ \<Rightarrow> Inr (rs[i := (rs ! i)\<lparr>matchedVerb := Some v\<rparr>], Some i)))"

text \<open>
  The parameter table: \<open>params[key.name] = extracted[index + 1]\<close> for the keys of the
  pattern from left to right. Reading the match array out of range gives \<open>undefined\<close>,
  like a group that did not take part in the match.
\<close>

definition capture :: "string option list \<Rightarrow> nat \<Rightarrow> string option" where
  "capture extracted i = (case at extracted i of None \<Rightarrow> None | Some g \<Rightarrow> g)"

definition extract_params :: "string list \<Rightarrow> string option list \<Rightarrow> (string \<times> string option) list" where
  "extract_params ks extracted =
     fold (\<lambda>(key, index). AList.update key (capture extracted (index + 1))) (zip ks [0..<length ks]) []"

text \<open>
  \<open>returnRouteArguments\<close> works on the objects themselves, so it is modelled on a store:
  a list of objects in which the records of the registry come first, each at the place
  that it has in the registry. \<open>_.clone\<close> makes a new object with the properties of
  the record that matched; the new object is put at the end of the store. The parameter
  table is assigned to the property \<open>params\<close> of the object at that address. Indexing
  the match array throws when \<open>exec\<close> gave \<open>null\<close> and the pattern has a key; the
  empty table has been assigned by then. The function returns the store and the address of
  the copy.
\<close>

definition clone :: "'p route_record list \<Rightarrow> nat \<Rightarrow> 'p route_record list \<times> nat" where
  "clone store address = (store @ [store ! address], length store)"

definition returnRouteArguments ::
  "('p, 'a) path_to_regexp \<Rightarrow> 'p route_record list \<Rightarrow> nat \<Rightarrow> string
     \<Rightarrow> 'p route_record list \<times> (error + nat)" where
  "returnRouteArguments lib store address urlPath =
     (let (store1, routeShallowCopy) = clone store address;
          ks = keys lib (pattern (store1 ! routeShallowCopy))
      in case exec lib (pattern (store1 ! routeShallowCopy)) urlPath of
           None \<Rightarrow>
             (store1[routeShallowCopy := (store1 ! routeShallowCopy)\<lparr>attached_params := Some []\<rparr>],
              if ks = [] then Inr routeShallowCopy
              else Inl (TypeError ''Cannot read property of null''))
         | Some extracted \<Rightarrow>
             (store1[routeShallowCopy :=
                       (store1 ! routeShallowCopy)\<lparr>attached_params := Some (extract_params ks extracted)\<rparr>],
              Inr routeShallowCopy))"

text \<open>
  What \<open>resolve\<close> hands back is the copy. It is given as a pair: \<open>params\<close> is the
  property \<open>params\<close> of the copy and \<open>matched\<close> holds its other properties.
\<close>

record 'p resolved =
  matched :: "'p route_record"
  params :: "(string \<times> string option) list"

definition as_resolved :: "'p route_record \<Rightarrow> 'p resolved" where
  "as_resolved object =
     \<lparr>matched = object\<lparr>attached_params := None\<rparr>,
      params = (case attached_params object of None \<Rightarrow> [] | Some table \<Rightarrow> table)\<rparr>"

text \<open>
  \<open>resolve\<close>: the state that it returns is the registry after the call, which is the
  part of the store that holds the records; an exception leaves the registry as the code
  had written it by then.
\<close>

definition Route_resolve ::
  "('p, 'a) path_to_regexp \<Rightarrow> 'p list \<Rightarrow> 'p router \<Rightarrow> string \<Rightarrow> string \<Rightarrow> string
     \<Rightarrow> 'p router \<times> (error + 'p resolved option)" where
  "Route_resolve lib registeredDomains st urlPath v host =
     (let urlPath' = (if Domains_match lib registeredDomains host then host @ urlPath else urlPath)
      in case returnMatchingRouteToUrl lib (routes st) urlPath' v of
           Inl e \<Rightarrow> (st, Inl e)
         | Inr (rs, None) \<Rightarrow> (st\<lparr>routes := rs\<rparr>, Inr None)
         | Inr (rs, Some i) \<Rightarrow>
             (let (store, answer) = returnRouteArguments lib rs i urlPath'
              in (st\<lparr>routes := take (length rs) store\<rparr>,
                  case answer of
                    Inl e \<Rightarrow> Inl e
                  | Inr address \<Rightarrow> Inr (Some (as_resolved (store ! address))))))"

subsection \<open>What a resolution sees\<close>

text \<open>The path that the patterns are tested on.\<close>

definition request_path :: "('p, 'a) path_to_regexp \<Rightarrow> 'p list \<Rightarrow> string \<Rightarrow> string \<Rightarrow> string" where
  "request_path lib registeredDomains urlPath host =
     (if \<exists>d\<in>set registeredDomains. test lib d host then host @ urlPath else urlPath)"

subsection \<open>Reverse routing and removal\<close>




text \<open>
  \<open>_.findIndex\<close> gives the index of the first element that satisfies the predicate, or
  \<open>-1\<close>. \<open>Array.prototype.splice(index, 1)\<close> counts a negative index from the end of
  the array and clamps the start to the array bounds.
\<close>

definition findIndex :: "('a \<Rightarrow> bool) \<Rightarrow> 'a list \<Rightarrow> int" where
  "findIndex P xs =
     (case filter (\<lambda>i. P (xs ! i)) [0..<length xs] of
        [] \<Rightarrow> - 1
      | i # _ \<Rightarrow> int i)"

definition splice1 :: "int \<Rightarrow> 'a list \<Rightarrow> 'a list" where
  "splice1 index xs =
     (let len = int (length xs);
          start = nat (if index < 0 then max (len + index) 0 else min index len)
      in take start xs @ drop (start + 1) xs)"

definition Route_remove :: "string \<Rightarrow> 'p router \<Rightarrow> 'p router" where
  "Route_remove n st =
     (let index = findIndex (\<lambda>r. name r = n) (routes st)
      in st\<lparr>routes := splice1 index (routes st)\<rparr>)"

section \<open>Resources\<close>

text \<open>
  \<open>Resource\<close> extends \<open>Route\<close>: a resource is a router of its own, with its own array
  \<open>_routes\<close> and its own active group, and with the fields \<open>pattern\<close>, \<open>handler\<close>
  and \<open>basename\<close> on top (\<open>res_pattern\<close>, \<open>res_handler\<close> and \<open>basename\<close> here).
  \<open>Route.resource(name, controller)\<close> is \<open>new Resource(Route, name, controller)\<close>:
  the router on which it is called is neither handed to the resource nor written to.

  The constructor sets \<open>this.log = super.log\<close> and \<open>this.util = super.util\<close>. These
  read the prototype of \<open>Route\<close>. The class body of \<open>Route\<close> declares \<open>log\<close> and
  \<open>util\<close> as fields and puts neither on its prototype, so in a run of the sources alone
  both reads give \<open>undefined\<close>; this is the prototype \<open>bare\<close> below. What the
  prototype holds is a parameter of the model, so that the methods of a resource can also
  be followed past their first use of \<open>this.log\<close> and \<open>this.util\<close>.
\<close>

record prototype =
  proto_log :: bool
  proto_util :: bool

definition bare :: prototype where
  "bare = \<lparr>proto_log = False, proto_util = False\<rparr>"

definition with_util :: prototype where
  "with_util = \<lparr>proto_log = False, proto_util = True\<rparr>"

record 'p resource =
  res_pattern :: string
  res_handler :: string
  basename :: string
  res_log :: bool
  res_util :: bool
  router_part :: "'p router"

definition res_routes :: "'p resource \<Rightarrow> 'p route_record list" where
  "res_routes res = routes (router_part res)"

text \<open>The character class \<open>\w\<close>.\<close>

definition is_word :: "char \<Rightarrow> bool" where
  "is_word c =
     (let n = of_char c :: nat
      in (48 \<le> n \<and> n \<le> 57) \<or> (65 \<le> n \<and> n \<le> 90) \<or> (97 \<le> n \<and> n \<le> 122) \<or> n = 95)"

text \<open>
  \<open>pattern.replace(/(\w+)\./g, ...)\<close>: the scanner carries the run of word characters
  read so far. A run that is not empty and is followed by a dot is a match and is replaced;
  any other run stays as it is, since no match can start inside it.
\<close>

fun replace_dotted :: "string \<Rightarrow> string \<Rightarrow> string" where
  "replace_dotted w [] = w"
| "replace_dotted w (c # cs) =
     (if is_word c then replace_dotted (w @ [c]) cs
      else if c = CHR ''.'' \<and> w \<noteq> [] then w @ ''/:'' @ w @ ''_id/'' @ replace_dotted [] cs
      else w @ [c] @ replace_dotted [] cs)"

text \<open>\<open>.replace(/\/$/, '')\<close> drops one slash at the end of the string.\<close>

definition trim_slash :: "string \<Rightarrow> string" where
  "trim_slash s = (if s \<noteq> [] \<and> last s = CHR ''/'' then butlast s else s)"

definition makePattern :: "string \<Rightarrow> string" where
  "makePattern pat = trim_slash (replace_dotted [] pat)"

text \<open>\<open>pattern.replace('/', '')\<close> drops the first slash only.\<close>

fun remove_first :: "char \<Rightarrow> string \<Rightarrow> string" where
  "remove_first x [] = []"
| "remove_first x (c # cs) = (if c = x then cs else c # remove_first x cs)"

text \<open>A number written in decimal, as \<open>String(n)\<close> writes it.\<close>

definition digit :: "nat \<Rightarrow> char" where
  "digit d = ''0123456789'' ! d"

function string_of_nat :: "nat \<Rightarrow> string" where
  "string_of_nat n =
     (if n < 10 then [digit n] else string_of_nat (n div 10) @ [digit (n mod 10)])"
  by pat_completeness auto
termination
  by (relation "measure id") auto

definition transformKeys :: "'p resource \<Rightarrow> string list \<Rightarrow> string list" where
  "transformKeys res pairKeys = map (\<lambda>item. basename res @ ''.'' @ item) pairKeys"

text \<open>
  \<open>Resource.as\<close>, as \<open>_registerRoute\<close> calls it: with a string. \<open>_.keys\<close> of a
  string are its indices, written in decimal. A record of the resource whose name is among
  the transformed keys is renamed to \<open>pairs[pairKeys[pairIndex]]\<close>, which for a string
  is its character at that index. The array of the resource may hold one record twice; the
  new name is a single character and no transformed key is that short, so visiting the
  record a second time changes nothing, and renaming each entry of the list by its own name
  gives what the source gives.
\<close>

definition string_keys :: "string \<Rightarrow> string list" where
  "string_keys s = map string_of_nat [0..<length s]"

definition rename_by_pairs :: "string \<Rightarrow> string list \<Rightarrow> 'p route_record \<Rightarrow> 'p route_record" where
  "rename_by_pairs pairs pairTransformedKeys r =
     (let pairIndex = findIndex (\<lambda>k. k = name r) pairTransformedKeys
      in if pairIndex > - 1 then r\<lparr>name := [pairs ! nat pairIndex]\<rparr> else r)"

definition Resource_as :: "string \<Rightarrow> 'p resource \<Rightarrow> 'p resource" where
  "Resource_as pairs res =
     (let pairKeys = string_keys pairs;
          pairTransformedKeys = transformKeys res pairKeys
      in res\<lparr>router_part := (router_part res)
               \<lparr>routes := map (rename_by_pairs pairs pairTransformedKeys) (routes (router_part res))\<rparr>\<rparr>)"

text \<open>
  \<open>_registerRoute\<close>: \<open>super.route(...)\<close> is the method \<open>route\<close> of \<open>Route\<close> run on
  the resource, so the new record is pushed onto the array of the resource, and the call
  returns the resource. The \<open>.as(resourceName)\<close> chained to it is therefore
  \<open>Resource.as\<close>, not the method of \<open>Route\<close> that names the last record.
  \<open>super._lastRoute()\<close> is then the record just pushed (the array is not empty), and
  \<open>this.routes.push(registeredRoute)\<close> pushes it onto the same array once more.
\<close>

definition registerRoute ::
  "('p, 'a) path_to_regexp \<Rightarrow> string list \<Rightarrow> string \<Rightarrow> string \<Rightarrow> string
     \<Rightarrow> 'p resource \<Rightarrow> 'p resource" where
  "registerRoute lib v r h n res =
     (let resourceName =
            (if basename res = ''/'' \<or> basename res = [] then n else basename res @ ''.'' @ n);
          res1 = res\<lparr>router_part := Route_route lib r v (Controller (h @ ''.'' @ n)) (router_part res)\<rparr>;
          res2 = Resource_as resourceName res1;
          registeredRoute = last (routes (router_part res2))
      in res2\<lparr>router_part := (router_part res2)
                \<lparr>routes := routes (router_part res2) @ [registeredRoute]\<rparr>\<rparr>)"

definition buildRoutes :: "('p, 'a) path_to_regexp \<Rightarrow> 'p resource \<Rightarrow> 'p resource" where
  "buildRoutes lib res =
     (let p = res_pattern res; h = res_handler res
      in registerRoute lib [''DELETE''] (p @ ''/:id'') h ''destroy''
          (registerRoute lib [''PUT'', ''PATCH''] (p @ ''/:id'') h ''update''
            (registerRoute lib [''GET'', ''HEAD''] (p @ ''/:id/edit'') h ''edit''
              (registerRoute lib [''GET'', ''HEAD''] (p @ ''/:id'') h ''show''
                (registerRoute lib [''POST''] p h ''store''
                  (registerRoute lib [''GET'', ''HEAD''] (p @ ''/create'') h ''create''
                    (registerRoute lib [''GET'', ''HEAD''] p h ''index'' res)))))))"

text \<open>
  The constructor: \<open>super()\<close> gives the resource an empty array and no active group. A
  handler that is not a string is refused. For the pattern \<open>/\<close> a warning is logged
  through \<open>this.log\<close>, which throws when \<open>super.log\<close> was \<open>undefined\<close>. Then the
  fields are set and the routes are built.
\<close>

definition Resource_new ::
  "('p, 'a) path_to_regexp \<Rightarrow> prototype \<Rightarrow> string \<Rightarrow> handler \<Rightarrow> error + 'p resource" where
  "Resource_new lib proto pat h =
     (case h of
        Controller c \<Rightarrow>
          if pat = ''/'' \<and> \<not> proto_log proto
          then Inl (TypeError ''Cannot read property warn of undefined'')
          else Inr (buildRoutes lib
                 \<lparr>res_pattern = makePattern pat, res_handler = c,
                  basename = remove_first CHR ''/'' pat,
                  res_log = proto_log proto, res_util = proto_util proto,
                  router_part = Route_new\<rparr>)
      | _ \<Rightarrow> Inl (InvalidArgument ''You can only bind controllers to resources''))"

text \<open>
  \<open>only\<close> and \<open>except\<close> start with \<open>this.util.spread\<close>, which throws when
  \<open>this.util\<close> is \<open>undefined\<close>; otherwise the methods arrive as a list
  (\<open>util.spread\<close> always gives an array), so the check for an array in
  \<open>_transformKeys\<close> passes. Then \<open>_.filter\<close> walks \<open>this.routes\<close>: it reads the
  length of the array once, at the start, and then reads the array at the indices below
  that length. The callback removes a rejected record with \<open>super.remove(route.name)\<close>,
  which is \<open>remove\<close> of \<open>Route\<close> run on the resource: it splices the very array that
  is being walked. An index at or beyond the current end of the array reads \<open>undefined\<close>,
  and \<open>route.name\<close> throws on it. The array that \<open>_.filter\<close> returns becomes the
  array of the resource.
\<close>

function filter_live ::
  "('p route_record \<Rightarrow> bool) \<Rightarrow> nat \<Rightarrow> nat \<Rightarrow> 'p router
     \<Rightarrow> error + 'p route_record list \<times> 'p router" where
  "filter_live reject index len st =
     (if index < len then
        (case at (routes st) index of
           None \<Rightarrow> Inl (TypeError ''Cannot read property name of undefined'')
         | Some r \<Rightarrow>
             if reject r then filter_live reject (index + 1) len (Route_remove (name r) st)
             else (case filter_live reject (index + 1) len st of
                     Inl e \<Rightarrow> Inl e
                   | Inr (kept, st') \<Rightarrow> Inr (r # kept, st')))
      else Inr ([], st))"
  by pat_completeness auto
termination
  by (relation "measure (\<lambda>(reject, index, len, st). len - index)") auto

declare filter_live.simps [simp del]

definition only :: "string list \<Rightarrow> 'p resource \<Rightarrow> error + 'p resource" where
  "only methods res =
     (if \<not> res_util res then Inl (TypeError ''Cannot read property spread of undefined'')
      else (let transformedMethods = transformKeys res methods
            in case filter_live (\<lambda>r. name r \<notin> set transformedMethods) 0
                      (length (routes (router_part res))) (router_part res) of
                 Inl e \<Rightarrow> Inl e
               | Inr (kept, st') \<Rightarrow> Inr (res\<lparr>router_part := st'\<lparr>routes := kept\<rparr>\<rparr>)))"

definition except :: "string list \<Rightarrow> 'p resource \<Rightarrow> error + 'p resource" where
  "except methods res =
     (if \<not> res_util res then Inl (TypeError ''Cannot read property spread of undefined'')
      else (let transformedMethods = transformKeys res methods
            in case filter_live (\<lambda>r. name r \<in> set transformedMethods) 0
                      (length (routes (router_part res))) (router_part res) of
                 Inl e \<Rightarrow> Inl e
               | Inr (kept, st') \<Rightarrow> Inr (res\<lparr>router_part := st'\<lparr>routes := kept\<rparr>\<rparr>)))"


subsection \<open>The conventions of a resource in words\<close>






text \<open>\<open>leading_slash\<close> is the normalisation of the path in \<open>construct\<close>.\<close>

definition leading_slash :: "string \<Rightarrow> string" where
  "leading_slash r = (if startsWith r CHR ''/'' then r else CHR ''/'' # r)"

text \<open>The list in which every entry of \<open>xs\<close> stands twice in a row.\<close>

definition each_twice :: "'a list \<Rightarrow> 'a list" where
  "each_twice xs = concat (map (\<lambda>x. [x, x]) xs)"

section \<open>A pattern compiler\<close>

text \<open>
  Modelled from the spec: the library \<open>path-to-regexp\<close> is not part of the sources. The
  compiler below follows the contract of the PatternCompiler: a path is a sequence of
  literal characters and named parameters \<open>:name\<close>; a parameter matches a non-empty run
  of characters other than the slash, as short as the rest of the path allows; extraction
  gives the values of the parameters in the order of the template; the reverse function
  fills the parameters from a table of values and fails when one is missing.
\<close>

datatype token = Lit char | Param string

function parse :: "string \<Rightarrow> token list" where
  "parse [] = []"
| "parse (c # cs) =
     (if c = CHR '':'' \<and> takeWhile is_word cs \<noteq> []
      then Param (takeWhile is_word cs) # parse (dropWhile is_word cs)
      else Lit c # parse cs)"
  by pat_completeness auto
termination
  by (relation "measure length") (auto simp: length_dropWhile_le less_Suc_eq_le)

fun match_tokens :: "token list \<Rightarrow> string \<Rightarrow> string list option" where
  "match_tokens [] s = (if s = [] then Some [] else None)"
| "match_tokens (Lit c # ts) s =
     (case s of [] \<Rightarrow> None | d # ds \<Rightarrow> if c = d then match_tokens ts ds else None)"
| "match_tokens (Param n # ts) s =
     (case List.map_filter
             (\<lambda>k. map_option (\<lambda>caps. take k s # caps) (match_tokens ts (drop k s)))
             [1..<Suc (length (takeWhile (\<lambda>c. c \<noteq> CHR ''/'') s))] of
        [] \<Rightarrow> None
      | caps # _ \<Rightarrow> Some caps)"

datatype param_value = Num nat | Str string

text \<open>A number among the values is written in decimal.\<close>

definition render :: "param_value \<Rightarrow> string" where
  "render v = (case v of Num n \<Rightarrow> string_of_nat n | Str s \<Rightarrow> s)"

fun fill :: "token list \<Rightarrow> (string \<times> param_value) list \<Rightarrow> error + string" where
  "fill [] vals = Inr []"
| "fill (Lit c # ts) vals =
     (case fill ts vals of Inl e \<Rightarrow> Inl e | Inr s \<Rightarrow> Inr (c # s))"
| "fill (Param n # ts) vals =
     (case map_of vals n of
        None \<Rightarrow> Inl (TypeError (''Expected '' @ n @ '' to be defined''))
      | Some v \<Rightarrow> (case fill ts vals of Inl e \<Rightarrow> Inl e | Inr s \<Rightarrow> Inr (render v @ s)))"

definition param_names :: "token list \<Rightarrow> string list" where
  "param_names ts = concat (map (\<lambda>t. case t of Lit c \<Rightarrow> [] | Param n \<Rightarrow> [n]) ts)"

definition simple_paths :: "(token list, (string \<times> param_value) list) path_to_regexp" where
  "simple_paths =
     \<lparr>pathToRegexp = parse,
      exec = (\<lambda>p s. map_option (\<lambda>caps. Some s # map Some caps) (match_tokens p s)),
      keys = param_names,
      compile = (\<lambda>r vals. fill (parse r) vals)\<rparr>"


subsection \<open>Example registries\<close>



definition user_show :: "token list route_record" where
  "user_show = construct simple_paths ''/user/:id'' [''GET'', ''HEAD'']
                 (Controller ''UserController.show'') None"



text \<open>
  A registry with one route under the domain \<open>admin.example.com\<close>, as
  \<open>RouterHelper.addDomain\<close> leaves the record, with the compiled domain among the
  registered domains.
\<close>

definition admin_registry :: "token list router" where
  "admin_registry = Route_new\<lparr>routes := addDomain [user_show] ''admin.example.com''\<rparr>"

definition admin_domains :: "token list list" where
  "admin_domains = Domains_add (makeRoutePattern simple_paths ''admin.example.com'') []"



section \<open>Properties of the middleware store\<close>

lemma register_falsy:
  "falsy v \<Longrightarrow> register key v s = s\<lparr>globalMiddleware := globalMiddleware s @ [key]\<rparr>"
  by (auto simp: falsy_def register_def split: option.splits)

lemma register_truthy:
  "ns \<noteq> [] \<Longrightarrow> register key (Some ns) s = s\<lparr>namedMiddleware := (namedMiddleware s)(key \<mapsto> ns)\<rparr>"
  by (simp add: register_def)

lemma named_Nil: "named [] s = s"
  by (simp add: named_def)

lemma named_Cons: "named ((key, v) # mapping) s = named mapping (register key v s)"
  by (simp add: named_def)

lemma register_cases:
  "register key v s =
     (if falsy v then s\<lparr>globalMiddleware := globalMiddleware s @ [key]\<rparr>
      else s\<lparr>namedMiddleware := (namedMiddleware s)(key \<mapsto> the v)\<rparr>)"
  by (auto simp: falsy_def register_def split: option.splits)

lemma named_global:
  "globalMiddleware (named mapping s) =
     globalMiddleware s @ map fst (filter (\<lambda>(key, v). falsy v) mapping)"
proof (induction mapping arbitrary: s)
  case Nil
  show ?case by (simp add: named_Nil)
next
  case (Cons e mapping)
  show ?case
    by (cases e) (simp add: named_Cons Cons.IH register_cases)
qed

lemma named_table_falsy:
  "\<forall>(key, v) \<in> set mapping. falsy v \<Longrightarrow> namedMiddleware (named mapping s) = namedMiddleware s"
proof (induction mapping arbitrary: s)
  case Nil
  show ?case by (simp add: named_Nil)
next
  case (Cons e mapping)
  then show ?case
    by (cases e) (simp add: named_Cons register_cases)
qed

text \<open>
  Claim C10. \<open>register key namespace\<close> with a missing or falsy namespace appends the key
  to the global list and leaves the named table as it is; with a truthy namespace it maps
  the key to the namespace in the named table and leaves the global list as it is. So
  \<open>named\<close> registers an entry whose value is falsy as a global middleware: the global
  list grows by exactly the keys with a falsy value, in order.
\<close>

theorem register_global_or_named:
  "(falsy namespace \<longrightarrow>
      globalMiddleware (register key namespace s) = globalMiddleware s @ [key]
      \<and> namedMiddleware (register key namespace s) = namedMiddleware s)
   \<and> (\<forall>ns. namespace = Some ns \<and> ns \<noteq> [] \<longrightarrow>
      namedMiddleware (register key namespace s) = (namedMiddleware s)(key \<mapsto> ns)
      \<and> globalMiddleware (register key namespace s) = globalMiddleware s)
   \<and> (falsy namespace \<longrightarrow>
      globalMiddleware (named [(key, namespace)] s) = globalMiddleware s @ [key]
      \<and> namedMiddleware (named [(key, namespace)] s) = namedMiddleware s)
   \<and> globalMiddleware (named mapping s) =
       globalMiddleware s @ map fst (filter (\<lambda>(k, v). falsy v) mapping)"
proof (intro conjI impI allI)
  assume f: "falsy namespace"
  show "globalMiddleware (register key namespace s) = globalMiddleware s @ [key]"
    by (simp add: register_falsy [OF f])
  show "namedMiddleware (register key namespace s) = namedMiddleware s"
    by (simp add: register_falsy [OF f])
  show "globalMiddleware (named [(key, namespace)] s) = globalMiddleware s @ [key]"
    using f by (simp add: named_global)
  show "namedMiddleware (named [(key, namespace)] s) = namedMiddleware s"
    using f by (simp add: named_table_falsy)
next
  fix ns assume "namespace = Some ns \<and> ns \<noteq> []"
  then show "namedMiddleware (register key namespace s) = (namedMiddleware s)(key \<mapsto> ns)"
    and "globalMiddleware (register key namespace s) = globalMiddleware s"
    by (simp_all add: register_truthy)
next
  show "globalMiddleware (named mapping s) =
       globalMiddleware s @ map fst (filter (\<lambda>(k, v). falsy v) mapping)"
    by (rule named_global)
qed

theorem register_global_or_named_witness:
  "falsy None \<and> falsy (Some '''')
   \<and> globalMiddleware (register ''App/Cors'' None new) = [''App/Cors'']
   \<and> namedMiddleware (register ''App/Cors'' None new) = Map.empty
   \<and> namedMiddleware (register ''auth'' (Some ''App/Auth'') new) ''auth'' = Some ''App/Auth''
   \<and> globalMiddleware (register ''auth'' (Some ''App/Auth'') new) = []
   \<and> globalMiddleware (named [(''cors'', Some '''')] new) = [''cors'']
   \<and> namedMiddleware (named [(''cors'', Some '''')] new) = Map.empty"
  using register_global_or_named [of None "''App/Cors''" new "[]"]
    register_global_or_named [of "Some ''App/Auth''" "''auth''" new "[]"]
    register_global_or_named [of "Some ''''" "''cors''" new "[]"]
  by (simp add: falsy_def new_def)

lemma uniq_fold_aux:
  "distinct acc \<Longrightarrow>
   distinct (fold (\<lambda>x seen. if x \<in> set seen then seen else seen @ [x]) xs acc)
   \<and> set (fold (\<lambda>x seen. if x \<in> set seen then seen else seen @ [x]) xs acc) = set acc \<union> set xs"
  by (induction xs arbitrary: acc) auto

lemma uniq_distinct: "distinct (uniq xs)" and uniq_set: "set (uniq xs) = set xs"
  using uniq_fold_aux [of "[]" xs] by (simp_all add: uniq_def)

lemma uniq_Nil_iff: "uniq xs = [] \<longleftrightarrow> xs = []"
  using uniq_set [of xs] by (metis set_empty)

text \<open>
  Claim C9, as amended. \<open>global batch\<close> appends the batch to the global list with the
  duplicates inside the batch dropped (first occurrences kept). Nothing is compared with
  the entries already in the list: registering the same batch twice appends its distinct
  entries twice, and gives the same list as registering it once only for the empty batch.
\<close>

theorem global_appends_uniq:
  "globalMiddleware (global batch s) = globalMiddleware s @ uniq batch
   \<and> namedMiddleware (global batch s) = namedMiddleware s
   \<and> distinct (uniq batch) \<and> set (uniq batch) = set batch
   \<and> globalMiddleware (global batch (global batch s)) = globalMiddleware s @ uniq batch @ uniq batch
   \<and> (global batch (global batch s) = global batch s \<longleftrightarrow> batch = [])"
proof -
  have "global batch (global batch s) = global batch s \<longleftrightarrow> uniq batch = []"
    by (auto simp: global_def dest: arg_cong [where f = globalMiddleware])
  then show ?thesis
    by (simp add: global_def uniq_distinct uniq_set uniq_Nil_iff)
qed

text \<open>
  Claim C9 as stated fails: a batch of one entry registered twice is in the list twice.
\<close>

theorem global_twice_counterexample:
  "global [''App/Cors''] (global [''App/Cors''] new) \<noteq> global [''App/Cors''] new"
  by (simp add: global_def new_def uniq_def)








lemma fold_update_map_of:
  "map_of (fold (\<lambda>key. AList.update (f key) (g key)) ks al) =
     fold (\<lambda>key m. m(f key \<mapsto> g key)) ks (map_of al)"
  by (induction ks arbitrary: al) (simp_all add: update_conv')

lemma fold_update_untouched:
  "\<forall>k\<in>set ks. f k \<noteq> x \<Longrightarrow> fold (\<lambda>key m. m(f key \<mapsto> g key)) ks m x = m x"
  by (induction ks arbitrary: m) auto

lemma fold_update_dom:
  "fst ` set (fold (\<lambda>key. AList.update (f key) (g key)) ks al) = f ` set ks \<union> fst ` set al"
  by (induction ks arbitrary: al) (auto simp: dom_update)






subsection \<open>Composition\<close>

lemma compose_Nil:
  "compose Instance members [] q r u next = Inr (start u next)"
  by (simp add: compose_def normalise_all_def forEachRight_def)

lemma compose_Cons:
  "compose Instance members (m # ms) q r u next = wrap q r (normalise members m) (compose Instance members ms q r u next)"
  by (simp add: compose_def normalise_all_def forEachRight_def)

lemma compose_step:
  assumes "callee (normalise members m) = Some f" and "compose Instance members ms q r u next = Inr g"
  shows "compose Instance members (m # ms) q r u next =
           Inr (f (receiver (normalise members m)) q r g (parameters (normalise members m)))"
  using assms by (simp add: compose_Cons wrap_def)

lemma compose_short_circuit:
  assumes "callee (normalise members m) = Some f"
    and "\<forall>g g'. f (receiver (normalise members m)) q r g (parameters (normalise members m))
               = f (receiver (normalise members m)) q r g' (parameters (normalise members m))"
    and "compose Instance members ms q r u next = Inr g" and "compose Instance members ms' q r u next' = Inr g'"
  shows "compose Instance members (m # ms) q r u next = compose Instance members (m # ms') q r u next'"
  using assms by (simp add: compose_Cons wrap_def)

lemma normalise_Function:
  "normalise members (Function f) = \<lparr>receiver = None, callee = Some f, parameters = []\<rparr>"
  by (simp add: normalise_def composeFunction_def)

lemma normalise_Object_Callable:
  "normalise members (Object None (Callable f) ps) = \<lparr>receiver = None, callee = Some f, parameters = ps\<rparr>"
  by (simp add: normalise_def composeObject_def)

lemma normalise_Object_Member:
  "normalise members (Object (Some i) (Member n) ps) = \<lparr>receiver = Some i, callee = members i n, parameters = ps\<rparr>"
  by (simp add: normalise_def composeObject_def)

lemma around_apply:
  "around b a this q r g ps w = (fst (g (b q r ps w)), a q r ps (snd (g (b q r ps w))))"
  by (simp add: around_def split_def Let_def)

lemma compose_around_entry:
  fixes members :: "'i \<Rightarrow> string \<Rightarrow> ('i, 'q, 'r, 'w, 'v) middleware_method option"
  assumes "compose Instance members ms q r u nxt = Inr g"
  shows "compose Instance members (around_entry (b, a, ps) # ms) q r u nxt
           = Inr (\<lambda>w. (fst (g (b q r ps w)), a q r ps (snd (g (b q r ps w)))))"
  using compose_step [of members "around_entry (b, a, ps)" "around b a" ms q r u nxt g] assms
  by (simp add: normalise_Object_Callable fun_eq_iff around_apply)

lemma compose_around:
  fixes members :: "'i \<Rightarrow> string \<Rightarrow> ('i, 'q, 'r, 'w, 'v) middleware_method option"
  shows "compose Instance members (map around_entry specs) q r u (Some terminal)
     = Inr (\<lambda>w. (fst (terminal (fold (run_before q r) specs w)),
                 fold (run_after q r) (rev specs)
                   (snd (terminal (fold (run_before q r) specs w)))))"
proof (induction specs)
  case Nil
  show ?case by (simp add: compose_Nil start_def)
next
  case (Cons spec specs)
  obtain b a ps where spec: "spec = (b, a, ps)" by (cases spec)
  show ?case
    unfolding spec list.map compose_around_entry [OF Cons.IH]
    by (simp add: fun_eq_iff)
qed


text \<open>
  With the \<open>Middleware\<close> instance as receiver, \<open>compose\<close> builds the chain from the
  end of the list: the chain of \<open>m # ms\<close> is the method of \<open>m\<close> applied to the
  request, the response, the chain of \<open>ms\<close> as its next step and then the parameters of
  \<open>m\<close> (none for a plain function, its own for an object), so the last middleware wraps
  the terminal continuation and the first is outermost. A middleware whose result does not
  depend on its next step cuts off whatever follows it. When every middleware delegates to
  its next step, the steps before the delegation run in list order, then the terminal
  continuation, then the steps after the delegation in reverse list order.
\<close>

lemma compose_instance_onion:
  fixes members :: "'i \<Rightarrow> string \<Rightarrow> ('i, 'q, 'r, 'w, 'v) middleware_method option"
  shows
  "compose Instance members [] q r u nxt = Inr (start u nxt)
   \<and> (\<forall>f g. callee (normalise members m) = Some f \<and> compose Instance members ms q r u nxt = Inr g
        \<longrightarrow> compose Instance members (m # ms) q r u nxt
             = Inr (f (receiver (normalise members m)) q r g (parameters (normalise members m))))
   \<and> (\<forall>f g g'. callee (normalise members m) = Some f
          \<and> (\<forall>h h'. f (receiver (normalise members m)) q r h (parameters (normalise members m))
                    = f (receiver (normalise members m)) q r h' (parameters (normalise members m)))
          \<and> compose Instance members ms q r u nxt = Inr g \<and> compose Instance members ms' q r u nxt' = Inr g'
        \<longrightarrow> compose Instance members (m # ms) q r u nxt = compose Instance members (m # ms') q r u nxt')
   \<and> normalise members (Function fn) = \<lparr>receiver = None, callee = Some fn, parameters = []\<rparr>
   \<and> normalise members (Object None (Callable fn) ps)
        = \<lparr>receiver = None, callee = Some fn, parameters = ps\<rparr>
   \<and> normalise members (Object (Some i) (Member n) ps)
        = \<lparr>receiver = Some i, callee = members i n, parameters = ps\<rparr>
   \<and> run (compose Instance members (map around_entry specs) q r u (Some terminal)) w
        = Inr (fst (terminal (fold (run_before q r) specs w)),
               fold (run_after q r) (rev specs) (snd (terminal (fold (run_before q r) specs w))))"
proof (intro conjI allI impI)
  show "compose Instance members [] q r u nxt = Inr (start u nxt)"
    by (rule compose_Nil)
next
  fix f g
  assume "callee (normalise members m) = Some f \<and> compose Instance members ms q r u nxt = Inr g"
  then show "compose Instance members (m # ms) q r u nxt
             = Inr (f (receiver (normalise members m)) q r g (parameters (normalise members m)))"
    by (simp add: compose_step)
next
  fix f g g'
  assume "callee (normalise members m) = Some f
          \<and> (\<forall>h h'. f (receiver (normalise members m)) q r h (parameters (normalise members m))
                    = f (receiver (normalise members m)) q r h' (parameters (normalise members m)))
          \<and> compose Instance members ms q r u nxt = Inr g \<and> compose Instance members ms' q r u nxt' = Inr g'"
  then show "compose Instance members (m # ms) q r u nxt = compose Instance members (m # ms') q r u nxt'"
    using compose_short_circuit [of members m f q r ms u nxt g ms' nxt' g'] by blast
next
  show "normalise members (Function fn) = \<lparr>receiver = None, callee = Some fn, parameters = []\<rparr>"
    by (rule normalise_Function)
  show "normalise members (Object None (Callable fn) ps)
        = \<lparr>receiver = None, callee = Some fn, parameters = ps\<rparr>"
    by (rule normalise_Object_Callable)
  show "normalise members (Object (Some i) (Member n) ps)
        = \<lparr>receiver = Some i, callee = members i n, parameters = ps\<rparr>"
    by (rule normalise_Object_Member)
  show "run (compose Instance members (map around_entry specs) q r u (Some terminal)) w
        = Inr (fst (terminal (fold (run_before q r) specs w)),
               fold (run_after q r) (rev specs) (snd (terminal (fold (run_before q r) specs w))))"
    by (simp add: compose_around run_def)
qed


lemma compose_instance_example:
  "run (compose Instance (\<lambda>(i :: unit) n. None)
          (map around_entry
             [(record_call ''A'', record_call ''A-post'', []),
              (record_call ''B'', record_call ''B-post'', [''admin''])])
          ''req'' ''res'' ''undefined'' (Some (\<lambda>w. (''done'', w @ [(''H'', [], [], [])])))) []
     = Inr (''done'',
            [(''A'', ''req'', ''res'', []), (''B'', ''req'', ''res'', [''admin'']),
             (''H'', [], [], []),
             (''B-post'', ''req'', ''res'', [''admin'']), (''A-post'', ''req'', ''res'', [])])
   \<and> run (compose Instance (\<lambda>(i :: unit) n. None)
          (Function (stop (\<lambda>q r ps w. (''denied'', record_call ''deny'' q r ps w)))
           # map around_entry [(record_call ''B'', record_call ''B-post'', [''admin''])])
          ''req'' ''res'' ''undefined'' (Some (\<lambda>w. (''done'', w @ [(''H'', [], [], [])])))) []
     = Inr (''denied'', [(''deny'', ''req'', ''res'', [])])"
proof -
  let ?members = "(\<lambda>(i :: unit) n. None)
                    :: unit \<Rightarrow> string \<Rightarrow> (unit, string, string, call_log, string) middleware_method option"
  let ?H = "(\<lambda>w. (''done'', w @ [(''H'', [], [], [])])) :: (call_log, string) generator"
  let ?deny = "stop (\<lambda>q r ps w. (''denied'', record_call ''deny'' q r ps w))
                 :: (unit, string, string, call_log, string) middleware_method"
  let ?B = "[(record_call ''B'', record_call ''B-post'', [''admin''])]"
  note onion = compose_instance_onion [where members = ?members and q = "''req''" and r = "''res''"
      and u = "''undefined''" and m = "Function ?deny" and fn = ?deny
      and ms = "map around_entry ?B" and nxt = "Some ?H" and ms' = "[]" and nxt' = None]
  have order: "run (compose Instance ?members
          (map around_entry
             [(record_call ''A'', record_call ''A-post'', []),
              (record_call ''B'', record_call ''B-post'', [''admin''])])
          ''req'' ''res'' ''undefined'' (Some ?H)) []
     = Inr (''done'',
            [(''A'', ''req'', ''res'', []), (''B'', ''req'', ''res'', [''admin'']),
             (''H'', [], [], []),
             (''B-post'', ''req'', ''res'', [''admin'']), (''A-post'', ''req'', ''res'', [])])"
    using onion [where specs = "[(record_call ''A'', record_call ''A-post'', []),
              (record_call ''B'', record_call ''B-post'', [''admin''])]" and terminal = ?H and w = "[]"]
    by (simp add: record_call_def)
  have callee: "callee (normalise ?members (Function ?deny)) = Some ?deny"
    using onion by simp
  have ignores: "\<forall>h h'. ?deny (receiver (normalise ?members (Function ?deny))) ''req'' ''res'' h
                          (parameters (normalise ?members (Function ?deny)))
                     = ?deny (receiver (normalise ?members (Function ?deny))) ''req'' ''res'' h'
                          (parameters (normalise ?members (Function ?deny)))"
    by (simp add: stop_def)
  obtain g where rest: "compose Instance ?members (map around_entry ?B) ''req'' ''res'' ''undefined'' (Some ?H) = Inr g"
    using compose_around [of ?members ?B "''req''" "''res''" "''undefined''" ?H] by blast
  note onion' = compose_instance_onion [where members = ?members and q = "''req''" and r = "''res''"
      and u = "''undefined''" and m = "Function ?deny" and ms = "[]" and nxt = None]
  have empty: "compose Instance ?members [] ''req'' ''res'' ''undefined'' None = Inr (start ''undefined'' None)"
    using onion' by simp
  from onion callee ignores rest empty
  have cut: "compose Instance ?members (Function ?deny # map around_entry ?B) ''req'' ''res'' ''undefined'' (Some ?H)
           = compose Instance ?members [Function ?deny] ''req'' ''res'' ''undefined'' None"
    by blast
  from onion' callee empty
  have "compose Instance ?members [Function ?deny] ''req'' ''res'' ''undefined'' None
          = Inr (?deny (receiver (normalise ?members (Function ?deny))) ''req'' ''res''
                   (start ''undefined'' None) (parameters (normalise ?members (Function ?deny))))"
    by blast
  with cut have "run (compose Instance ?members (Function ?deny # map around_entry ?B)
                        ''req'' ''res'' ''undefined'' (Some ?H)) []
                   = Inr (''denied'', [(''deny'', ''req'', ''res'', [])])"
    by (simp add: run_def stop_def record_call_def normalise_Function)
  with order show ?thesis by simp
qed

text \<open>
  Claim C2. The chain is built only when the function that \<open>compose\<close> returns is started
  with the \<open>Middleware\<close> instance as its receiver (\<open>compose_instance_onion\<close>). Started
  by a plain call it has no receiver, and for every list that is not empty it throws a
  \<open>TypeError\<close> at the first middleware, before any middleware is wrapped or run: no
  chain is built, whatever the middleware, the request, the response and the terminal
  continuation are. Only the empty list gets through, and gives the terminal continuation.
\<close>

theorem compose_plain_call:
  "compose Unbound members (Function f # ms) q r u nxt
     = Inl (TypeError ''Cannot read property _composeFunction of undefined'')
   \<and> compose Unbound members (Object inst m ps # ms) q r u nxt
     = Inl (TypeError ''Cannot read property _composeObject of undefined'')
   \<and> run (compose Unbound members (Function f # ms) q r u nxt) w
     = Inl (TypeError ''Cannot read property _composeFunction of undefined'')
   \<and> compose Unbound members [] q r u nxt = Inr (start u nxt)"
  by (simp add: compose_def normalise_all_def run_def forEachRight_def)

section \<open>Properties of the registry\<close>

lemma index_filter_none:
  "\<forall>x\<in>set xs. \<not> P x \<Longrightarrow> filter (\<lambda>i. P (xs ! i)) [0..<length xs] = []"
  by (simp add: filter_empty_conv)

lemma index_filter_first:
  assumes "\<forall>x\<in>set pre. \<not> P x" and "P r"
  shows "\<exists>rest. filter (\<lambda>i. P ((pre @ r # post) ! i)) [0..<length (pre @ r # post)]
           = length pre # rest"
proof -
  let ?xs = "pre @ r # post"
  have split_upt: "[0..<length ?xs] = [0..<length pre] @ length pre # [Suc (length pre)..<length ?xs]"
    by (metis add_Suc_right length_Cons length_append less_add_Suc1 upt_add_eq_append upt_conv_Cons zero_le)
  have "filter (\<lambda>i. P (?xs ! i)) [0..<length pre] = []"
    using assms(1) by (auto simp: filter_empty_conv nth_append)
  moreover have "P (?xs ! length pre)"
    using assms(2) by simp
  ultimately show ?thesis
    unfolding split_upt by simp
qed

lemma findIndex_absent: "\<forall>x\<in>set xs. \<not> P x \<Longrightarrow> findIndex P xs = - 1"
  by (simp add: findIndex_def index_filter_none)

lemma findIndex_first:
  assumes "\<forall>x\<in>set pre. \<not> P x" and "P r"
  shows "findIndex P (pre @ r # post) = int (length pre)"
proof -
  obtain rest where "filter (\<lambda>i. P ((pre @ r # post) ! i)) [0..<length (pre @ r # post)]
           = length pre # rest"
    using index_filter_first [OF assms] by blast
  then show ?thesis by (simp add: findIndex_def)
qed

lemma splice1_at: "splice1 (int (length pre)) (pre @ r # post) = pre @ post"
  by (simp add: splice1_def)

lemma splice1_minus_one: "splice1 (- 1) xs = butlast xs"
proof (cases xs rule: rev_cases)
  case Nil
  then show ?thesis by (simp add: splice1_def)
next
  case (snoc ys y)
  then show ?thesis by (simp add: splice1_def nat_add_distrib)
qed

lemma Route_remove_present:
  assumes "routes st = pre @ r # post" and "\<forall>x\<in>set pre. name x \<noteq> n" and "name r = n"
  shows "routes (Route_remove n st) = pre @ post"
  using findIndex_first [of pre "\<lambda>x. name x = n" r post] assms
  by (simp add: Route_remove_def splice1_at)

lemma Route_remove_absent:
  assumes "\<forall>x\<in>set (routes st). name x \<noteq> n"
  shows "routes (Route_remove n st) = butlast (routes st)"
  using findIndex_absent [of "routes st" "\<lambda>x. name x = n"] assms
  by (simp add: Route_remove_def splice1_minus_one)

text \<open>
  Claim C5. \<open>remove name\<close> deletes the first record with that name
  (\<open>Route_remove_present\<close>). When no record has the name the code does not leave the
  registry alone: \<open>findIndex\<close> gives \<open>-1\<close> and \<open>splice(-1, 1)\<close> cuts the last
  record (\<open>Route_remove_absent\<close>). With the routes \<open>/a\<close> and \<open>/b\<close> registered,
  removing the name \<open>missing\<close> leaves the registry that holds \<open>/a\<close> alone.
\<close>

theorem Route_remove_missing_name:
  "routes (Route_remove ''missing'' (Route_get lib ''/b'' Null (Route_get lib ''/a'' Null Route_new)))
     = routes (Route_get lib ''/a'' Null Route_new)
   \<and> routes (Route_remove ''missing'' (Route_get lib ''/b'' Null (Route_get lib ''/a'' Null Route_new)))
     \<noteq> routes (Route_get lib ''/b'' Null (Route_get lib ''/a'' Null Route_new))"
proof -
  let ?st = "Route_get lib ''/b'' Null (Route_get lib ''/a'' Null Route_new)"
  have names: "\<forall>x\<in>set (routes ?st). name x \<noteq> ''missing''"
    by (simp add: Route_get_def Route_route_def Route_new_def construct_def startsWith_def Let_def)
  have "routes (Route_remove ''missing'' ?st) = butlast (routes ?st)"
    by (rule Route_remove_absent [OF names])
  then show ?thesis
    by (simp add: Route_get_def Route_route_def Route_new_def)
qed

section \<open>Properties of resolution\<close>

lemma Domains_match_iff:
  "Domains_match lib ds host \<longleftrightarrow> (\<exists>d\<in>set ds. test lib d host)"
proof -
  have "fold (\<lambda>d isDomain. if test lib d host then True else isDomain) ds b
          \<longleftrightarrow> b \<or> (\<exists>d\<in>set ds. test lib d host)" for b
    by (induction ds arbitrary: b) auto
  then show ?thesis by (simp add: Domains_match_def)
qed

lemma Domains_match_path:
  "(if Domains_match lib ds host then host @ urlPath else urlPath) = request_path lib ds urlPath host"
  by (simp add: request_path_def Domains_match_iff)

lemma filter_callback_domain:
  "has_domain r \<Longrightarrow>
   filter_callback lib p v r = Inl (TypeError ''route.makeRoutePattern is not a function'')"
  by (simp add: filter_callback_def)

lemma filter_callback_other:
  "\<not> has_domain r \<Longrightarrow> filter_callback lib p v r = Inr (passes lib p v r)"
  by (simp add: filter_callback_def)

lemma filter_indices_domain:
  "\<exists>x\<in>set rs. has_domain x \<Longrightarrow>
   filter_indices (filter_callback lib p v) rs k
     = Inl (TypeError ''route.makeRoutePattern is not a function'')"
proof (induction rs arbitrary: k)
  case Nil
  then show ?case by simp
next
  case (Cons x rs)
  show ?case
  proof (cases "has_domain x")
    case True
    then show ?thesis by (simp add: filter_callback_domain)
  next
    case False
    with Cons.prems have "\<exists>x\<in>set rs. has_domain x" by auto
    from Cons.IH [OF this] False show ?thesis by (simp add: filter_callback_other)
  qed
qed

lemma filter_indices_total:
  "\<forall>x\<in>set rs. \<not> has_domain x \<Longrightarrow> \<exists>found. filter_indices (filter_callback lib p v) rs k = Inr found"
proof (induction rs arbitrary: k)
  case Nil
  show ?case by simp
next
  case (Cons x rs)
  then obtain found where "filter_indices (filter_callback lib p v) rs (Suc k) = Inr found"
    by fastforce
  with Cons.prems show ?case by (simp add: filter_callback_other)
qed

lemma filter_indices_none:
  "\<forall>x\<in>set rs. \<not> has_domain x \<Longrightarrow> \<forall>x\<in>set rs. \<not> passes lib p v x \<Longrightarrow>
   filter_indices (filter_callback lib p v) rs k = Inr []"
  by (induction rs arbitrary: k) (simp_all add: filter_callback_other)

lemma filter_indices_first:
  assumes "\<forall>x\<in>set (pre @ r # post). \<not> has_domain x" and "\<forall>x\<in>set pre. \<not> passes lib p v x"
    and "passes lib p v r"
  shows "\<exists>rest. filter_indices (filter_callback lib p v) (pre @ r # post) k
                  = Inr ((k + length pre) # rest)"
  using assms
proof (induction pre arbitrary: k)
  case Nil
  then have "\<forall>x\<in>set post. \<not> has_domain x" by simp
  from filter_indices_total [OF this, of lib p v "Suc k"]
  obtain found where "filter_indices (filter_callback lib p v) post (Suc k) = Inr found" by blast
  with Nil show ?case by (simp add: filter_callback_other)
next
  case (Cons x pre)
  from Cons.prems have "\<forall>x\<in>set (pre @ r # post). \<not> has_domain x"
    and "\<forall>x\<in>set pre. \<not> passes lib p v x" by simp_all
  from Cons.IH [OF this Cons.prems(3), of "Suc k"]
  obtain rest where "filter_indices (filter_callback lib p v) (pre @ r # post) (Suc k)
                      = Inr ((Suc k + length pre) # rest)" by blast
  with Cons.prems show ?case by (simp add: filter_callback_other)
qed

lemma returnMatchingRouteToUrl_domain:
  "\<exists>x\<in>set rs. has_domain x \<Longrightarrow>
   returnMatchingRouteToUrl lib rs urlPath v
     = Inl (TypeError ''route.makeRoutePattern is not a function'')"
  by (simp add: returnMatchingRouteToUrl_def filter_indices_domain)

lemma returnMatchingRouteToUrl_none:
  "\<forall>x\<in>set rs. \<not> has_domain x \<Longrightarrow> \<forall>x\<in>set rs. \<not> passes lib urlPath v x \<Longrightarrow>
   returnMatchingRouteToUrl lib rs urlPath v = Inr (rs, None)"
  by (simp add: returnMatchingRouteToUrl_def filter_indices_none)

lemma returnMatchingRouteToUrl_first:
  assumes "rs = pre @ r # post" and "\<forall>x\<in>set rs. \<not> has_domain x"
    and "\<forall>x\<in>set pre. \<not> passes lib urlPath v x" and "passes lib urlPath v r"
  shows "returnMatchingRouteToUrl lib rs urlPath v
           = Inr (pre @ r\<lparr>matchedVerb := Some v\<rparr> # post, Some (length pre))"
proof -
  from filter_indices_first [OF assms(2) [unfolded assms(1)] assms(3,4), of 0]
  obtain rest where "filter_indices (filter_callback lib urlPath v) (pre @ r # post) 0
                       = Inr (length pre # rest)"
    by auto
  then show ?thesis
    by (simp add: returnMatchingRouteToUrl_def assms(1))
qed

lemma returnRouteArguments_matched:
  assumes "address < length store" and "exec lib (pattern (store ! address)) urlPath = Some extracted"
  shows "returnRouteArguments lib store address urlPath
           = (store @ [(store ! address)
                         \<lparr>attached_params :=
                            Some (extract_params (keys lib (pattern (store ! address))) extracted)\<rparr>],
              Inr (length store))"
  using assms by (simp add: returnRouteArguments_def clone_def Let_def)

lemma Route_resolve_domain:
  assumes "\<exists>x\<in>set (routes st). has_domain x"
  shows "Route_resolve lib ds st urlPath v host
           = (st, Inl (TypeError ''route.makeRoutePattern is not a function''))"
  by (simp add: Route_resolve_def Let_def returnMatchingRouteToUrl_domain [OF assms])

lemma Route_resolve_none:
  assumes "\<forall>x\<in>set (routes st). \<not> has_domain x"
    and "\<forall>x\<in>set (routes st). \<not> passes lib (request_path lib ds urlPath host) v x"
  shows "Route_resolve lib ds st urlPath v host = (st, Inr None)"
  unfolding Route_resolve_def Domains_match_path Let_def returnMatchingRouteToUrl_none [OF assms]
  by simp

lemma resolve_copy:
  assumes "i < length rs" and "exec lib (pattern (rs ! i)) path = Some extracted"
  shows "(case returnRouteArguments lib rs i path of
            (store, answer) \<Rightarrow>
              (st\<lparr>routes := take (length rs) store\<rparr>,
               case answer of
                 Inl e \<Rightarrow> Inl e
               | Inr address \<Rightarrow> Inr (Some (as_resolved (store ! address)))))
         = (st\<lparr>routes := rs\<rparr>,
            Inr (Some \<lparr>matched = (rs ! i)\<lparr>attached_params := None\<rparr>,
                       params = extract_params (keys lib (pattern (rs ! i))) extracted\<rparr>))"
  by (simp add: returnRouteArguments_matched [OF assms] as_resolved_def)

lemma Route_resolve_first:
  assumes "routes st = pre @ r # post" and "\<forall>x\<in>set (routes st). \<not> has_domain x"
    and "\<forall>x\<in>set pre. \<not> passes lib (request_path lib ds urlPath host) v x"
    and "passes lib (request_path lib ds urlPath host) v r"
  shows "\<exists>extracted.
           exec lib (pattern r) (request_path lib ds urlPath host) = Some extracted
           \<and> Route_resolve lib ds st urlPath v host =
               (st\<lparr>routes := pre @ r\<lparr>matchedVerb := Some v\<rparr> # post\<rparr>,
                Inr (Some \<lparr>matched = r\<lparr>matchedVerb := Some v, attached_params := None\<rparr>,
                           params = extract_params (keys lib (pattern r)) extracted\<rparr>))"
proof -
  let ?path = "request_path lib ds urlPath host"
  let ?r = "r\<lparr>matchedVerb := Some v\<rparr>"
  let ?rs = "pre @ ?r # post"
  from assms(4) obtain extracted where ex: "exec lib (pattern r) ?path = Some extracted"
    by (auto simp: passes_def test_def)
  have at_i: "?rs ! length pre = ?r" by simp
  have len: "length pre < length ?rs" by simp
  have ex': "exec lib (pattern (?rs ! length pre)) ?path = Some extracted"
    unfolding at_i using ex by simp
  have "Route_resolve lib ds st urlPath v host =
          (st\<lparr>routes := ?rs\<rparr>,
           Inr (Some \<lparr>matched = (?rs ! length pre)\<lparr>attached_params := None\<rparr>,
                      params = extract_params (keys lib (pattern (?rs ! length pre))) extracted\<rparr>))"
    unfolding Route_resolve_def Domains_match_path Let_def
      returnMatchingRouteToUrl_first [OF assms] sum.case prod.case option.case
    by (rule resolve_copy [OF len ex'])
  then have "Route_resolve lib ds st urlPath v host =
          (st\<lparr>routes := ?rs\<rparr>,
           Inr (Some \<lparr>matched = r\<lparr>matchedVerb := Some v, attached_params := None\<rparr>,
                      params = extract_params (keys lib (pattern r)) extracted\<rparr>))"
    unfolding at_i by simp
  with ex show ?thesis by blast
qed

lemma has_domain_iff: "has_domain r \<longleftrightarrow> (\<exists>d. domain r = Some d \<and> d \<noteq> [])"
  by (simp add: has_domain_def split: option.splits)

text \<open>
  Claim C1. \<open>resolve\<close> does not reach the matching described by the claim as soon as one
  record of the registry carries a truthy domain: the callback of the filter calls
  \<open>makeRoutePattern\<close> on the record, which is a plain object without such a member, so
  the call of \<open>resolve\<close> ends in a \<open>TypeError\<close>, whatever the path, the verb and the
  host are and whether or not another record would have matched. Nothing has been written
  to the registry by then. On a registry without such a record the claim holds
  (\<open>Route_resolve_without_domains\<close> below).
\<close>

theorem Route_resolve_domain_throws:
  assumes "r \<in> set (routes st)" and "domain r = Some d" and "d \<noteq> []"
  shows "Route_resolve lib ds st urlPath v host
           = (st, Inl (TypeError ''route.makeRoutePattern is not a function''))"
proof -
  from assms have "\<exists>x\<in>set (routes st). has_domain x"
    by (auto simp: has_domain_iff)
  then show ?thesis by (rule Route_resolve_domain)
qed

lemma admin_registry_routes:
  "routes admin_registry = [user_show\<lparr>domain := Some ''admin.example.com''\<rparr>]"
  by (simp add: admin_registry_def addDomain_def Route_new_def)

theorem Route_resolve_domain_throws_witness:
  "user_show\<lparr>domain := Some ''admin.example.com''\<rparr> \<in> set (routes admin_registry)
   \<and> domain (user_show\<lparr>domain := Some ''admin.example.com''\<rparr>) = Some ''admin.example.com''
   \<and> Route_resolve simple_paths admin_domains admin_registry ''/user/7'' ''GET'' ''admin.example.com''
       = (admin_registry, Inl (TypeError ''route.makeRoutePattern is not a function''))"
  using Route_resolve_domain_throws [of "user_show\<lparr>domain := Some ''admin.example.com''\<rparr>"
      admin_registry "''admin.example.com''" simple_paths admin_domains "''/user/7''" "''GET''"
      "''admin.example.com''"]
  by (simp add: admin_registry_routes)

subsection \<open>Registries without a domain\<close>

lemma fold_update_last:
  assumes "kvs = pre @ (k, x) # post" and "\<forall>p\<in>set post. fst p \<noteq> k"
  shows "map_of (fold (\<lambda>p. AList.update (fst p) (g (snd p))) kvs al) k = Some (g x)"
  using assms
  by (simp add: fold_update_map_of [of fst "\<lambda>p. g (snd p)"] fold_update_untouched update_conv')

lemma capture_eq: "capture extracted i = (if i < length extracted then extracted ! i else None)"
  by (simp add: capture_def at_def)

lemma params_positional:
  assumes "i < length ks" and "\<forall>j. i < j \<and> j < length ks \<longrightarrow> ks ! j \<noteq> ks ! i"
  shows "map_of (extract_params ks extracted) (ks ! i)
           = Some (if i + 1 < length extracted then extracted ! (i + 1) else None)"
proof -
  let ?kvs = "zip ks [0..<length ks]"
  have len: "i < length ?kvs" using assms(1) by simp
  have at_i: "?kvs ! i = (ks ! i, i)" using assms(1) by simp
  have sp: "?kvs = take i ?kvs @ (ks ! i, i) # drop (Suc i) ?kvs"
    using id_take_nth_drop [OF len] at_i by simp
  have later: "\<forall>p\<in>set (drop (Suc i) ?kvs). fst p \<noteq> ks ! i"
  proof
    fix p assume "p \<in> set (drop (Suc i) ?kvs)"
    then obtain n where n: "n < length (drop (Suc i) ?kvs)" "p = drop (Suc i) ?kvs ! n"
      by (auto simp: in_set_conv_nth)
    then have "Suc i + n < length ks" by simp
    moreover from n this have "p = (ks ! (Suc i + n), Suc i + n)" by simp
    ultimately show "fst p \<noteq> ks ! i" using assms(2) by simp
  qed
  have eq: "(\<lambda>(key, index). AList.update key (capture extracted (index + 1)))
          = (\<lambda>p. AList.update (fst p) (capture extracted (snd p + 1)))"
    by (simp add: fun_eq_iff split_def)
  have "map_of (extract_params ks extracted) (ks ! i) = Some (capture extracted (i + 1))"
    unfolding extract_params_def eq
    by (rule fold_update_last [OF sp later, of "\<lambda>n. capture extracted (n + 1)" "[]"])
  then show ?thesis by (simp add: capture_eq)
qed

lemma params_keys: "fst ` set (extract_params ks extracted) = set ks"
proof -
  have eq: "(\<lambda>(key, index). AList.update key (capture extracted (index + 1)))
          = (\<lambda>p. AList.update (fst p) (capture extracted (snd p + 1)))"
    by (simp add: fun_eq_iff split_def)
  have "fst ` set (zip ks [0..<length ks]) = set ks"
    by (metis length_upt map_fst_zip minus_nat.diff_0 set_map)
  then show ?thesis
    unfolding extract_params_def eq by (simp add: fold_update_dom [of fst])
qed

text \<open>
  On a registry in which no record carries a truthy domain, \<open>resolve\<close> answers with the
  first record, in the order of the registry, whose pattern tests true on the path (the url
  path, with the host in front when the host matches a registered domain) and whose verbs
  contain the verb: the answer is a copy of that record with the requested verb as
  \<open>matchedVerb\<close> and the parameters, whose names are the keys of the pattern and whose
  values are the entries of the match array at the positions after the whole match. When no
  record passes, the answer is empty. No such call ends in an error.
\<close>

lemma Route_resolve_without_domains:
  assumes "\<forall>x\<in>set (routes st). \<not> has_domain x"
  shows "(\<forall>pre r post.
       routes st = pre @ r # post
       \<and> (\<forall>x\<in>set pre. \<not> passes lib (request_path lib ds urlPath host) v x)
       \<and> passes lib (request_path lib ds urlPath host) v r
     \<longrightarrow> (\<exists>extracted ps.
            exec lib (pattern r) (request_path lib ds urlPath host) = Some extracted
            \<and> snd (Route_resolve lib ds st urlPath v host)
                = Inr (Some \<lparr>matched = r\<lparr>matchedVerb := Some v, attached_params := None\<rparr>,
                            params = ps\<rparr>)
            \<and> fst ` set ps = set (keys lib (pattern r))
            \<and> (\<forall>i. i < length (keys lib (pattern r))
                   \<and> (\<forall>j. i < j \<and> j < length (keys lib (pattern r))
                          \<longrightarrow> keys lib (pattern r) ! j \<noteq> keys lib (pattern r) ! i)
                 \<longrightarrow> map_of ps (keys lib (pattern r) ! i)
                       = Some (if i + 1 < length extracted then extracted ! (i + 1) else None))))
   \<and> ((\<forall>x\<in>set (routes st). \<not> passes lib (request_path lib ds urlPath host) v x)
        \<longrightarrow> snd (Route_resolve lib ds st urlPath v host) = Inr None)
   \<and> (\<exists>result. snd (Route_resolve lib ds st urlPath v host) = Inr result)"
proof (intro conjI allI impI)
  fix pre r post
  assume a: "routes st = pre @ r # post
       \<and> (\<forall>x\<in>set pre. \<not> passes lib (request_path lib ds urlPath host) v x)
       \<and> passes lib (request_path lib ds urlPath host) v r"
  let ?ks = "keys lib (pattern r)"
  from a Route_resolve_first [of st pre r post lib ds urlPath host v] assms
  obtain extracted where
    ex: "exec lib (pattern r) (request_path lib ds urlPath host) = Some extracted"
    and res: "snd (Route_resolve lib ds st urlPath v host)
                = Inr (Some \<lparr>matched = r\<lparr>matchedVerb := Some v, attached_params := None\<rparr>,
                            params = extract_params ?ks extracted\<rparr>)"
    by auto
  have dom: "fst ` set (extract_params ?ks extracted) = set ?ks"
    by (rule params_keys)
  have pos: "\<forall>i. i < length ?ks \<and> (\<forall>j. i < j \<and> j < length ?ks \<longrightarrow> ?ks ! j \<noteq> ?ks ! i)
                 \<longrightarrow> map_of (extract_params ?ks extracted) (?ks ! i)
                       = Some (if i + 1 < length extracted then extracted ! (i + 1) else None)"
  proof (intro allI impI)
    fix i
    assume h: "i < length ?ks \<and> (\<forall>j. i < j \<and> j < length ?ks \<longrightarrow> ?ks ! j \<noteq> ?ks ! i)"
    show "map_of (extract_params ?ks extracted) (?ks ! i)
            = Some (if i + 1 < length extracted then extracted ! (i + 1) else None)"
      by (rule params_positional) (use h in auto)
  qed
  show "\<exists>extracted ps.
            exec lib (pattern r) (request_path lib ds urlPath host) = Some extracted
            \<and> snd (Route_resolve lib ds st urlPath v host)
                = Inr (Some \<lparr>matched = r\<lparr>matchedVerb := Some v, attached_params := None\<rparr>,
                            params = ps\<rparr>)
            \<and> fst ` set ps = set ?ks
            \<and> (\<forall>i. i < length ?ks \<and> (\<forall>j. i < j \<and> j < length ?ks \<longrightarrow> ?ks ! j \<noteq> ?ks ! i)
                 \<longrightarrow> map_of ps (?ks ! i)
                       = Some (if i + 1 < length extracted then extracted ! (i + 1) else None))"
    using ex res dom pos by blast
next
  assume "\<forall>x\<in>set (routes st). \<not> passes lib (request_path lib ds urlPath host) v x"
  with assms show "snd (Route_resolve lib ds st urlPath v host) = Inr None"
    by (simp add: Route_resolve_none)
next
  show "\<exists>result. snd (Route_resolve lib ds st urlPath v host) = Inr result"
  proof (cases "\<exists>x\<in>set (routes st). passes lib (request_path lib ds urlPath host) v x")
    case True
    then obtain pre r post where "routes st = pre @ r # post"
      "passes lib (request_path lib ds urlPath host) v r"
      "\<forall>x\<in>set pre. \<not> passes lib (request_path lib ds urlPath host) v x"
      using split_list_first_prop [of "routes st"
          "\<lambda>x. passes lib (request_path lib ds urlPath host) v x"]
      by blast
    from Route_resolve_first [OF this(1) assms this(3) this(2)] show ?thesis by auto
  next
    case False
    with assms show ?thesis by (simp add: Route_resolve_none)
  qed
qed

subsection \<open>What resolution changes in the registry\<close>




subsection \<open>Resolution on the example registries\<close>





lemma simple_exec:
  "exec simple_paths p s = map_option (\<lambda>caps. Some s # map Some caps) (match_tokens p s)"
  "keys simple_paths p = param_names p"
  by (simp_all add: simple_paths_def)

lemma construct_eq:
  "construct lib r v h g =
     \<lparr>route = leading_slash r, verb = v, handler = h,
      pattern = makeRoutePattern lib (leading_slash r), middlewares = [],
      name = leading_slash r, group = g, domain = None, matchedVerb = None,
      attached_params = None\<rparr>"
  by (simp add: construct_def leading_slash_def Let_def)










section \<open>Properties of reverse routing\<close>


lemma string_of_5: "string_of_nat 5 = ''5''"
  by (simp add: digit_def)












section \<open>Properties of resources\<close>

lemma each_twice_simps:
  "each_twice [] = []" "each_twice (x # xs) = x # x # each_twice xs"
  "each_twice (xs @ ys) = each_twice xs @ each_twice ys"
  "map f (each_twice xs) = each_twice (map f xs)" "set (each_twice xs) = set xs"
  by (induction xs) (simp_all add: each_twice_def)




lemma registerRoute_routes:
  "res_routes (registerRoute lib v r h n res) =
     (let g = rename_by_pairs
                (if basename res = ''/'' \<or> basename res = [] then n else basename res @ ''.'' @ n)
                (transformKeys res (string_keys
                   (if basename res = ''/'' \<or> basename res = [] then n else basename res @ ''.'' @ n)));
          c = construct lib r v (Controller (h @ ''.'' @ n)) (activeGroup (router_part res))
      in map g (res_routes res) @ [g c, g c])"
  by (simp add: registerRoute_def res_routes_def Resource_as_def Route_route_def Let_def
        transformKeys_def)

lemma registerRoute_frame:
  "basename (registerRoute lib v r h n res) = basename res"
  "res_pattern (registerRoute lib v r h n res) = res_pattern res"
  "res_handler (registerRoute lib v r h n res) = res_handler res"
  "res_log (registerRoute lib v r h n res) = res_log res"
  "res_util (registerRoute lib v r h n res) = res_util res"
  "activeGroup (router_part (registerRoute lib v r h n res)) = activeGroup (router_part res)"
  by (simp_all add: registerRoute_def Resource_as_def Route_route_def Let_def)


lemma buildRoutes_frame:
  "basename (buildRoutes lib res) = basename res"
  "res_pattern (buildRoutes lib res) = res_pattern res"
  "res_handler (buildRoutes lib res) = res_handler res"
  "res_log (buildRoutes lib res) = res_log res"
  "res_util (buildRoutes lib res) = res_util res"
  "activeGroup (router_part (buildRoutes lib res)) = activeGroup (router_part res)"
  by (simp_all add: buildRoutes_def Let_def registerRoute_frame)















subsection \<open>The list of a resource as the code leaves it\<close>

lemma leading_slash_starts: "startsWith (leading_slash r) CHR ''/''"
  by (simp add: leading_slash_def startsWith_def)

lemma transformKeys_no_slash:
  "\<not> startsWith (basename res) CHR ''/'' \<Longrightarrow>
   \<forall>k\<in>set (transformKeys res items). \<not> startsWith k CHR ''/''"
  by (cases "basename res") (auto simp: transformKeys_def startsWith_def)

lemma names_not_keys:
  assumes "\<not> startsWith (basename res) CHR ''/''" and "startsWith (name r) CHR ''/''"
  shows "name r \<notin> set (transformKeys res items)"
  using transformKeys_no_slash [OF assms(1), of items] assms(2) by blast

lemma rename_by_pairs_unchanged:
  assumes "\<not> startsWith (basename res) CHR ''/''" and "startsWith (name r) CHR ''/''"
  shows "rename_by_pairs pairs (transformKeys res items) r = r"
proof -
  have "\<forall>k\<in>set (transformKeys res items). \<not> k = name r"
    using names_not_keys [OF assms, of items] by auto
  then have "findIndex (\<lambda>k. k = name r) (transformKeys res items) = - 1"
    by (rule findIndex_absent)
  then show ?thesis by (simp add: rename_by_pairs_def)
qed

lemma registerRoute_plain:
  assumes "\<not> startsWith (basename res) CHR ''/''"
    and "\<forall>x\<in>set (res_routes res). startsWith (name x) CHR ''/''"
  shows "res_routes (registerRoute lib v r h n res)
           = res_routes res
             @ each_twice [construct lib r v (Controller (h @ ''.'' @ n)) (activeGroup (router_part res))]"
proof -
  let ?c = "construct lib r v (Controller (h @ ''.'' @ n)) (activeGroup (router_part res))"
  have c: "startsWith (name ?c) CHR ''/''"
    by (simp add: construct_eq leading_slash_starts)
  have gm: "map (rename_by_pairs pairs (transformKeys res items)) (res_routes res) = res_routes res"
    for pairs items
    using assms by (simp add: map_idI rename_by_pairs_unchanged)
  have gc: "rename_by_pairs pairs (transformKeys res items) ?c = ?c" for pairs items
    by (rule rename_by_pairs_unchanged [OF assms(1) c])
  show ?thesis
    unfolding registerRoute_routes Let_def gm gc
    by (simp add: each_twice_simps)
qed

lemma registerRoute_names:
  assumes "\<not> startsWith (basename res) CHR ''/''"
    and "\<forall>x\<in>set (res_routes res). startsWith (name x) CHR ''/''"
  shows "\<forall>x\<in>set (res_routes (registerRoute lib v r h n res)). startsWith (name x) CHR ''/''"
  unfolding registerRoute_plain [OF assms]
  using assms(2) by (simp add: each_twice_simps construct_eq leading_slash_starts)

lemma buildRoutes_plain:
  assumes "\<not> startsWith (basename res) CHR ''/''" and "res_routes res = []"
  shows "res_routes (buildRoutes lib res)
           = each_twice
               (map (\<lambda>(v, suffix, action).
                       construct lib (res_pattern res @ suffix) v
                         (Controller (res_handler res @ ''.'' @ action)) (activeGroup (router_part res)))
                  [([''GET'', ''HEAD''], [], ''index''),
                   ([''GET'', ''HEAD''], ''/create'', ''create''),
                   ([''POST''], [], ''store''),
                   ([''GET'', ''HEAD''], ''/:id'', ''show''),
                   ([''GET'', ''HEAD''], ''/:id/edit'', ''edit''),
                   ([''PUT'', ''PATCH''], ''/:id'', ''update''),
                   ([''DELETE''], ''/:id'', ''destroy'')])"
proof -
  let ?p = "res_pattern res" and ?h = "res_handler res"
  let ?r1 = "registerRoute lib [''GET'', ''HEAD''] ?p ?h ''index'' res"
  let ?r2 = "registerRoute lib [''GET'', ''HEAD''] (?p @ ''/create'') ?h ''create'' ?r1"
  let ?r3 = "registerRoute lib [''POST''] ?p ?h ''store'' ?r2"
  let ?r4 = "registerRoute lib [''GET'', ''HEAD''] (?p @ ''/:id'') ?h ''show'' ?r3"
  let ?r5 = "registerRoute lib [''GET'', ''HEAD''] (?p @ ''/:id/edit'') ?h ''edit'' ?r4"
  let ?r6 = "registerRoute lib [''PUT'', ''PATCH''] (?p @ ''/:id'') ?h ''update'' ?r5"
  let ?r7 = "registerRoute lib [''DELETE''] (?p @ ''/:id'') ?h ''destroy'' ?r6"
  have n0: "\<forall>x\<in>set (res_routes res). startsWith (name x) CHR ''/''"
    using assms(2) by simp
  have b1: "\<not> startsWith (basename ?r1) CHR ''/''" using assms(1) by (simp add: registerRoute_frame)
  have n1: "\<forall>x\<in>set (res_routes ?r1). startsWith (name x) CHR ''/''"
    by (rule registerRoute_names [OF assms(1) n0])
  have b2: "\<not> startsWith (basename ?r2) CHR ''/''" using assms(1) by (simp add: registerRoute_frame)
  have n2: "\<forall>x\<in>set (res_routes ?r2). startsWith (name x) CHR ''/''"
    by (rule registerRoute_names [OF b1 n1])
  have b3: "\<not> startsWith (basename ?r3) CHR ''/''" using assms(1) by (simp add: registerRoute_frame)
  have n3: "\<forall>x\<in>set (res_routes ?r3). startsWith (name x) CHR ''/''"
    by (rule registerRoute_names [OF b2 n2])
  have b4: "\<not> startsWith (basename ?r4) CHR ''/''" using assms(1) by (simp add: registerRoute_frame)
  have n4: "\<forall>x\<in>set (res_routes ?r4). startsWith (name x) CHR ''/''"
    by (rule registerRoute_names [OF b3 n3])
  have b5: "\<not> startsWith (basename ?r5) CHR ''/''" using assms(1) by (simp add: registerRoute_frame)
  have n5: "\<forall>x\<in>set (res_routes ?r5). startsWith (name x) CHR ''/''"
    by (rule registerRoute_names [OF b4 n4])
  have b6: "\<not> startsWith (basename ?r6) CHR ''/''" using assms(1) by (simp add: registerRoute_frame)
  have n6: "\<forall>x\<in>set (res_routes ?r6). startsWith (name x) CHR ''/''"
    by (rule registerRoute_names [OF b5 n5])
  have eq: "buildRoutes lib res = ?r7"
    by (simp add: buildRoutes_def Let_def)
  show ?thesis
    unfolding eq registerRoute_plain [OF b6 n6] registerRoute_plain [OF b5 n5]
      registerRoute_plain [OF b4 n4] registerRoute_plain [OF b3 n3]
      registerRoute_plain [OF b2 n2] registerRoute_plain [OF b1 n1]
      registerRoute_plain [OF assms(1) n0]
    by (simp add: assms(2) each_twice_simps registerRoute_frame)
qed

lemma post_resource:
  "\<exists>res. Resource_new lib proto ''post'' (Controller ''PostController'') = Inr res
     \<and> basename res = ''post'' \<and> res_util res = proto_util proto
     \<and> res_routes res
         = each_twice
             (map (\<lambda>(v, r, action). construct lib r v (Controller (''PostController.'' @ action)) None)
                [([''GET'', ''HEAD''], ''post'', ''index''),
                 ([''GET'', ''HEAD''], ''post/create'', ''create''),
                 ([''POST''], ''post'', ''store''),
                 ([''GET'', ''HEAD''], ''post/:id'', ''show''),
                 ([''GET'', ''HEAD''], ''post/:id/edit'', ''edit''),
                 ([''PUT'', ''PATCH''], ''post/:id'', ''update''),
                 ([''DELETE''], ''post/:id'', ''destroy'')])"
proof -
  let ?res0 = "\<lparr>res_pattern = makePattern ''post'', res_handler = ''PostController'',
                basename = remove_first CHR ''/'' ''post'',
                res_log = proto_log proto, res_util = proto_util proto,
                router_part = Route_new\<rparr> :: 'a resource"
  have new: "Resource_new lib proto ''post'' (Controller ''PostController'') = Inr (buildRoutes lib ?res0)"
    by (simp add: Resource_new_def)
  have b: "\<not> startsWith (basename ?res0) CHR ''/''"
    by (simp add: startsWith_def)
  have e: "res_routes ?res0 = []"
    by (simp add: res_routes_def Route_new_def)
  have p: "makePattern ''post'' = ''post''"
    by (simp add: makePattern_def trim_slash_def is_word_def)
  have rts: "res_routes (buildRoutes lib ?res0)
         = each_twice
             (map (\<lambda>(v, r, action). construct lib r v (Controller (''PostController.'' @ action)) None)
                [([''GET'', ''HEAD''], ''post'', ''index''),
                 ([''GET'', ''HEAD''], ''post/create'', ''create''),
                 ([''POST''], ''post'', ''store''),
                 ([''GET'', ''HEAD''], ''post/:id'', ''show''),
                 ([''GET'', ''HEAD''], ''post/:id/edit'', ''edit''),
                 ([''PUT'', ''PATCH''], ''post/:id'', ''update''),
                 ([''DELETE''], ''post/:id'', ''destroy'')])"
    unfolding buildRoutes_plain [OF b e] by (simp add: p Route_new_def)
  have base: "basename (buildRoutes lib ?res0) = ''post''"
    and util: "res_util (buildRoutes lib ?res0) = proto_util proto"
    by (simp_all add: buildRoutes_frame)
  from new base util rts show ?thesis by blast
qed


subsection \<open>Filtering a resource\<close>

lemma Route_remove_one:
  assumes "\<exists>x\<in>set (routes st). name x = n"
  shows "Suc (length (routes (Route_remove n st))) = length (routes st)"
    and "set (routes (Route_remove n st)) \<subseteq> set (routes st)"
proof -
  from assms obtain pre r post where sp: "routes st = pre @ r # post" and "name r = n"
    and "\<forall>x\<in>set pre. name x \<noteq> n"
    using split_list_first_prop [of "routes st" "\<lambda>x. name x = n"] by blast
  then have "routes (Route_remove n st) = pre @ post"
    by (simp add: Route_remove_present)
  then show "Suc (length (routes (Route_remove n st))) = length (routes st)"
    and "set (routes (Route_remove n st)) \<subseteq> set (routes st)"
    unfolding sp by auto
qed

lemma filter_live_all_rejected:
  assumes "\<forall>r\<in>set (routes st). reject r" and "length (routes st) + k = len" and "k < len"
    and "2 \<le> len"
  shows "filter_live reject k len st = Inl (TypeError ''Cannot read property name of undefined'')"
  using assms
proof (induction "len - k" arbitrary: k st rule: less_induct)
  case less
  show ?case
  proof (cases "k < length (routes st)")
    case False
    then show ?thesis
      using less.prems(3) by (subst filter_live.simps) (simp add: at_def)
  next
    case True
    let ?r = "routes st ! k"
    let ?st = "Route_remove (name ?r) st"
    have r_in: "?r \<in> set (routes st)" using True by simp
    then have present: "\<exists>x\<in>set (routes st). name x = name ?r" by blast
    note one = Route_remove_one [OF present]
    have rej: "\<forall>r\<in>set (routes ?st). reject r"
      using less.prems(1) one(2) by blast
    have len': "length (routes ?st) + (k + 1) = len"
      using one(1) less.prems(2) by simp
    have k': "k + 1 < len"
      using True less.prems(2,4) by arith
    have "len - (k + 1) < len - k"
      using less.prems(3) by arith
    from less.hyps [OF this rej len' k' less.prems(4)]
    have "filter_live reject (k + 1) len ?st
            = Inl (TypeError ''Cannot read property name of undefined'')" .
    moreover have "reject ?r" using less.prems(1) r_in by blast
    ultimately show ?thesis
      using True less.prems(3) by (subst filter_live.simps) (simp add: at_def)
  qed
qed

lemma filter_live_none_rejected:
  assumes "\<forall>r\<in>set (routes st). \<not> reject r" and "k \<le> length (routes st)"
  shows "filter_live reject k (length (routes st)) st = Inr (drop k (routes st), st)"
  using assms
proof (induction "length (routes st) - k" arbitrary: k rule: less_induct)
  case less
  show ?case
  proof (cases "k < length (routes st)")
    case False
    with less.prems(2) show ?thesis
      by (subst filter_live.simps) simp
  next
    case True
    then have "length (routes st) - (k + 1) < length (routes st) - k" by arith
    from less.hyps [OF this less.prems(1)] True
    have "filter_live reject (k + 1) (length (routes st)) st = Inr (drop (k + 1) (routes st), st)"
      by simp
    moreover have "\<not> reject (routes st ! k)" using less.prems(1) True by simp
    ultimately show ?thesis
      using True by (subst filter_live.simps) (simp add: at_def Cons_nth_drop_Suc)
  qed
qed

lemma without_util:
  "\<not> res_util res \<Longrightarrow> only S res = Inl (TypeError ''Cannot read property spread of undefined'')"
  "\<not> res_util res \<Longrightarrow> except S res = Inl (TypeError ''Cannot read property spread of undefined'')"
  by (simp_all add: only_def except_def)

lemma only_throws:
  assumes "res_util res" and "\<not> startsWith (basename res) CHR ''/''"
    and "\<forall>x\<in>set (res_routes res). startsWith (name x) CHR ''/''"
    and "2 \<le> length (res_routes res)"
  shows "only S res = Inl (TypeError ''Cannot read property name of undefined'')"
proof -
  have "\<forall>r\<in>set (routes (router_part res)). name r \<notin> set (transformKeys res S)"
    using assms(3) names_not_keys [OF assms(2), of _ S] by (auto simp: res_routes_def)
  moreover have "length (routes (router_part res)) + 0 = length (routes (router_part res))"
    by simp
  moreover have "0 < length (routes (router_part res))" "2 \<le> length (routes (router_part res))"
    using assms(4) by (auto simp: res_routes_def)
  ultimately
  have "filter_live (\<lambda>r. name r \<notin> set (transformKeys res S)) 0 (length (routes (router_part res)))
          (router_part res) = Inl (TypeError ''Cannot read property name of undefined'')"
    by (rule filter_live_all_rejected)
  then show ?thesis
    using assms(1) by (simp add: only_def)
qed

lemma except_keeps_all:
  assumes "res_util res" and "\<not> startsWith (basename res) CHR ''/''"
    and "\<forall>x\<in>set (res_routes res). startsWith (name x) CHR ''/''"
  shows "except S res = Inr res"
proof -
  have "\<forall>r\<in>set (routes (router_part res)). \<not> name r \<in> set (transformKeys res S)"
    using assms(3) names_not_keys [OF assms(2), of _ S] by (auto simp: res_routes_def)
  from filter_live_none_rejected [of "router_part res" "\<lambda>r. name r \<in> set (transformKeys res S)" 0,
      OF this]
  have "filter_live (\<lambda>r. name r \<in> set (transformKeys res S)) 0 (length (routes (router_part res)))
          (router_part res) = Inr (routes (router_part res), router_part res)"
    by simp
  then show ?thesis
    using assms(1) by (simp add: except_def)
qed

text \<open>
  Claim C6. Neither method does what the claim says; the resource of \<open>post\<close> with the
  controller \<open>PostController\<close> shows it for every list \<open>S\<close> of actions. In a run of
  the sources alone \<open>this.util\<close> is \<open>undefined\<close>, and \<open>only\<close> and \<open>except\<close>
  end in a \<open>TypeError\<close> at their first statement. With a \<open>util\<close> in place, the
  routes of the resource carry their paths as names, while the keys made from \<open>S\<close> are
  \<open>post.index\<close> and the like, so no route is taken to be named by \<open>S\<close>: \<open>only\<close>
  removes routes from the array it is walking until it reads past the end of the array and
  ends in a \<open>TypeError\<close>, and \<open>except\<close> removes nothing and keeps all fourteen
  entries, those of the actions in \<open>S\<close> among them.
\<close>

theorem only_except_post_resource:
  "only S (projr (Resource_new lib bare ''post'' (Controller ''PostController'')))
     = Inl (TypeError ''Cannot read property spread of undefined'')
   \<and> except S (projr (Resource_new lib bare ''post'' (Controller ''PostController'')))
     = Inl (TypeError ''Cannot read property spread of undefined'')
   \<and> only S (projr (Resource_new lib with_util ''post'' (Controller ''PostController'')))
     = Inl (TypeError ''Cannot read property name of undefined'')
   \<and> except S (projr (Resource_new lib with_util ''post'' (Controller ''PostController'')))
     = Inr (projr (Resource_new lib with_util ''post'' (Controller ''PostController'')))
   \<and> map handler (res_routes (projr
        (Resource_new lib with_util ''post'' (Controller ''PostController''))))
     = [Controller ''PostController.index'', Controller ''PostController.index'',
        Controller ''PostController.create'', Controller ''PostController.create'',
        Controller ''PostController.store'', Controller ''PostController.store'',
        Controller ''PostController.show'', Controller ''PostController.show'',
        Controller ''PostController.edit'', Controller ''PostController.edit'',
        Controller ''PostController.update'', Controller ''PostController.update'',
        Controller ''PostController.destroy'', Controller ''PostController.destroy'']
   \<and> map name (res_routes (projr
        (Resource_new lib with_util ''post'' (Controller ''PostController''))))
     = [''/post'', ''/post'', ''/post/create'', ''/post/create'', ''/post'', ''/post'',
        ''/post/:id'', ''/post/:id'', ''/post/:id/edit'', ''/post/:id/edit'',
        ''/post/:id'', ''/post/:id'', ''/post/:id'', ''/post/:id'']"
proof -
  let ?table = "[([''GET'', ''HEAD''], ''post'', ''index''),
                 ([''GET'', ''HEAD''], ''post/create'', ''create''),
                 ([''POST''], ''post'', ''store''),
                 ([''GET'', ''HEAD''], ''post/:id'', ''show''),
                 ([''GET'', ''HEAD''], ''post/:id/edit'', ''edit''),
                 ([''PUT'', ''PATCH''], ''post/:id'', ''update''),
                 ([''DELETE''], ''post/:id'', ''destroy'')]"
  from post_resource [of lib bare] obtain plain where
    plain: "Resource_new lib bare ''post'' (Controller ''PostController'') = Inr plain"
    and plain_util: "res_util plain = proto_util bare"
    by blast
  from post_resource [of lib with_util] obtain res where
    res: "Resource_new lib with_util ''post'' (Controller ''PostController'') = Inr res"
    and base: "basename res = ''post''" and util: "res_util res = proto_util with_util"
    and rts: "res_routes res
         = each_twice
             (map (\<lambda>(v, r, action). construct lib r v (Controller (''PostController.'' @ action)) None)
                ?table)"
    by blast
  have no_util: "\<not> res_util plain"
    by (simp add: plain_util bare_def)
  have has_util: "res_util res"
    by (simp add: util with_util_def)
  have b: "\<not> startsWith (basename res) CHR ''/''"
    by (simp add: base startsWith_def)
  have names: "\<forall>x\<in>set (res_routes res). startsWith (name x) CHR ''/''"
    unfolding rts by (simp add: each_twice_simps construct_eq leading_slash_starts)
  have many: "2 \<le> length (res_routes res)"
    unfolding rts by (simp add: each_twice_simps)
  have handlers: "map handler (res_routes res)
     = [Controller ''PostController.index'', Controller ''PostController.index'',
        Controller ''PostController.create'', Controller ''PostController.create'',
        Controller ''PostController.store'', Controller ''PostController.store'',
        Controller ''PostController.show'', Controller ''PostController.show'',
        Controller ''PostController.edit'', Controller ''PostController.edit'',
        Controller ''PostController.update'', Controller ''PostController.update'',
        Controller ''PostController.destroy'', Controller ''PostController.destroy'']"
    unfolding rts by (simp add: each_twice_simps construct_eq)
  have paths: "map name (res_routes res)
     = [''/post'', ''/post'', ''/post/create'', ''/post/create'', ''/post'', ''/post'',
        ''/post/:id'', ''/post/:id'', ''/post/:id/edit'', ''/post/:id/edit'',
        ''/post/:id'', ''/post/:id'', ''/post/:id'', ''/post/:id'']"
    unfolding rts by (simp add: each_twice_simps construct_eq leading_slash_def startsWith_def)
  show ?thesis
    unfolding plain res sum.sel
    using without_util [OF no_util, of S] only_throws [OF has_util b names many, of S]
      except_keeps_all [OF has_util b names, of S] handlers paths
    by (intro conjI)
qed

subsection \<open>Worked examples\<close>

text \<open>
  \<open>Resource.as\<close> on a string, computed on small inputs: the keys of a string of three
  characters, an index of two digits, and a record that is renamed because its name is one of the transformed keys
  (which never happens to a record that \<open>construct\<close> has named after its path).
\<close>

lemma string_keys_example:
  "string_keys ''abc'' = [''0'', ''1'', ''2'']" "string_of_nat 11 = ''11''"
  by (simp_all add: string_keys_def digit_def upt_rec)

lemma rename_by_pairs_example:
  "name (rename_by_pairs ''index'' [''a.0'', ''a.1'', ''a.2''] (r\<lparr>name := ''a.2''\<rparr>)) = ''d''"
  "rename_by_pairs ''index'' [''a.0'', ''a.1'', ''a.2''] (r\<lparr>name := ''/a''\<rparr>) = r\<lparr>name := ''/a''\<rparr>"
  by (simp_all add: rename_by_pairs_def findIndex_def upt_rec Let_def)

text \<open>The host of the example domain is recognised, and the path is then qualified by it.\<close>

lemma admin_domains_example:
  "Domains_match simple_paths admin_domains ''admin.example.com''"
  "\<not> Domains_match simple_paths admin_domains ''localhost''"
  "request_path simple_paths admin_domains ''/user/7'' ''admin.example.com''
     = ''admin.example.com/user/7''"
proof -
  have p: "pathToRegexp simple_paths ''admin.example.com'' = map Lit ''admin.example.com''"
    by (simp add: simple_paths_def is_word_def)
  show "Domains_match simple_paths admin_domains ''admin.example.com''"
    "\<not> Domains_match simple_paths admin_domains ''localhost''"
    "request_path simple_paths admin_domains ''/user/7'' ''admin.example.com''
       = ''admin.example.com/user/7''"
    by (simp_all add: Domains_match_def Domains_add_def admin_domains_def request_path_def
          makeRoutePattern_def test_def simple_exec p)
qed

text \<open>The member \<open>__proto__\<close> reads as the prototype object.\<close>

lemma inherited_proto_example:
  "formatNamedMiddleware new [''__proto__''] = Inr [(''[object Object]'', [])]"
  by (simp add: formatNamedMiddleware_def formatNamedMiddleware_step_def lookup_named_def
        new_def at_def fetchParams_def object_prototype_members_def member_text_def)

end
